theory Spec2Isabelle
  imports Complex_Main
begin

section \<open>Process and observation models of the depth-based object tracker\<close>

text \<open>
  The development embeds three source files:
  \<^item> \<^verbatim>\<open>brownian_object_motion_model.hpp\<close> (class \<^verbatim>\<open>BrownianObjectMotionModel\<close>),
  \<^item> \<^verbatim>\<open>continuous_occlusion_process_model.hpp\<close> (class \<^verbatim>\<open>ContinuousOcclusionProcessModel\<close>),
  \<^item> \<^verbatim>\<open>depth_observation_model.hpp\<close> (classes \<^verbatim>\<open>PixelObservationModel\<close> and
    \<^verbatim>\<open>DepthObservationModel\<close>).

  Member functions become functions that take the object and return the updated object.
  A data member \<^verbatim>\<open>x_\<close> of the source is the record field \<open>x_m\<close> (a name cannot end in an
  underscore here).
  An out-of-range access to a \<^verbatim>\<open>std::vector\<close> or an Eigen block (undefined behaviour or a
  failed Eigen assertion in the source) is the error value \<open>IndexOutOfRange\<close>; a failed
  \<^verbatim>\<open>assert\<close> is \<open>AssertionFailed\<close>.
  Collaborators whose code belongs to other libraries (the stochastic integrator, the
  quaternion map, the map of the truncated Gaussian, the logistic functions, the renderer)
  are parameters, collected in records of functions; what is proved holds for every
  choice of them, and the examples fix one.
\<close>

datatype error = IndexOutOfRange | AssertionFailed

definition bindE :: "error + 'a \<Rightarrow> ('a \<Rightarrow> error + 'b) \<Rightarrow> error + 'b" where
  "bindE r f = (case r of Inl e \<Rightarrow> Inl e | Inr x \<Rightarrow> f x)"

text \<open>A loop \<^verbatim>\<open>for (i = 0; i < n; i++)\<close> whose body updates the object: the indices in order.\<close>

fun foldE :: "(nat \<Rightarrow> 's \<Rightarrow> error + 's) \<Rightarrow> nat list \<Rightarrow> 's \<Rightarrow> error + 's" where
  "foldE f [] s = Inr s"
| "foldE f (i # js) s = (case f i s of Inl e \<Rightarrow> Inl e | Inr s' \<Rightarrow> foldE f js s')"

text \<open>A loop whose body writes entry \<open>i\<close> of a fresh vector: the entries in order.\<close>

fun mapE :: "(nat \<Rightarrow> error + 'b) \<Rightarrow> nat list \<Rightarrow> error + 'b list" where
  "mapE f [] = Inr []"
| "mapE f (i # js) =
     (case f i of Inl e \<Rightarrow> Inl e
      | Inr y \<Rightarrow> (case mapE f js of Inl e \<Rightarrow> Inl e | Inr ys \<Rightarrow> Inr (y # ys)))"

text \<open>\<^verbatim>\<open>v.topRows(n)\<close> and \<^verbatim>\<open>v.middleRows(k, n)\<close> of an Eigen column vector.\<close>

definition middleRows :: "'a list \<Rightarrow> nat \<Rightarrow> nat \<Rightarrow> error + 'a list" where
  "middleRows v k n = (if k + n \<le> length v then Inr (take n (drop k v)) else Inl IndexOutOfRange)"

definition topRows :: "'a list \<Rightarrow> nat \<Rightarrow> error + 'a list" where
  "topRows v n = middleRows v 0 n"

definition coeff :: "'a list \<Rightarrow> nat \<Rightarrow> error + 'a" where
  "coeff v i = (if i < length v then Inr (v ! i) else Inl IndexOutOfRange)"

subsection \<open>Pixel observation model\<close>

text \<open>
  \<^verbatim>\<open>PixelObservationModel<Scalar>\<close> is a template over its scalar type; the arithmetic it
  uses (\<^verbatim>\<open>+\<close>, \<^verbatim>\<open>*\<close>, \<^verbatim>\<open>std::exp\<close>) is a parameter of the model, so that what is proved
  holds for every arithmetic, rounding or not.
\<close>

record 'a scalar_ops =
  s_plus :: "'a \<Rightarrow> 'a \<Rightarrow> 'a"
  s_times :: "'a \<Rightarrow> 'a \<Rightarrow> 'a"
  s_exp :: "'a \<Rightarrow> 'a"

definition real_ops :: "real scalar_ops" where
  "real_ops = \<lparr>s_plus = (+), s_times = (*), s_exp = exp\<rparr>"

text \<open>
  The model is a Gaussian over a one-dimensional noise; \<open>covariance\<close> is the single entry
  \<^verbatim>\<open>covariance()(0,0)\<close> of its 1x1 second moment.
\<close>

record 'a PixelObservationModel =
  covariance :: 'a

definition PixelObservationModel :: "'a \<Rightarrow> 'a PixelObservationModel" where
  "PixelObservationModel noise_covariance = \<lparr>covariance = noise_covariance\<rparr>"

text \<open>
  \<^verbatim>\<open>y(0,0) = state(0,0) + std::exp(state(1,0)) * covariance()(0,0) * noise(0,0);\<close>
  \<^verbatim>\<open>y(1,0) = y(0,0) * y(0,0);\<close>
\<close>

definition Pixel_predict_observation ::
  "'a scalar_ops \<Rightarrow> 'a PixelObservationModel \<Rightarrow> 'a \<times> 'a \<Rightarrow> 'a \<Rightarrow> real \<Rightarrow> 'a \<times> 'a" where
  "Pixel_predict_observation ops pm state noise delta_time =
     (let y0 = s_plus ops (fst state)
                 (s_times ops (s_times ops (s_exp ops (snd state)) (covariance pm)) noise);
          y1 = s_times ops y0 y0
      in (y0, y1))"

subsection \<open>Depth observation model\<close>

text \<open>
  \<^verbatim>\<open>FactorizedIIDObservationModel<PixelObsrvModel, Size>\<close> of the filtering library: one
  pixel model shared by \<open>count_local_models_m\<close> pixels, applied to each pixel on its own
  (the specification's factorized composition: two internal-state values, one noise value
  and two observation values per pixel). Its \<^verbatim>\<open>predict_observation\<close> gives pixel \<open>i\<close>
  rows \<open>2 i, 2 i + 1\<close> of the internal state and row \<open>i\<close> of the noise, and writes the
  pixel's observation to rows \<open>2 i, 2 i + 1\<close> of the result.
\<close>

record 'a CameraObservationModel =
  local_obsrv_model_m :: "'a PixelObservationModel"
  count_local_models_m :: nat

definition Camera_predict_observation ::
  "'a scalar_ops \<Rightarrow> 'a CameraObservationModel \<Rightarrow> 'a list \<Rightarrow> 'a list \<Rightarrow> real \<Rightarrow> error + 'a list" where
  "Camera_predict_observation ops cam state noise delta_time =
     bindE
       (mapE
          (\<lambda>i. bindE (middleRows state (i * 2) 2) (\<lambda>s.
                bindE (middleRows noise (i * 1) 1) (\<lambda>w.
                  (let y = Pixel_predict_observation ops (local_obsrv_model_m cam)
                             (s ! 0, s ! 1) (w ! 0) delta_time
                   in Inr [fst y, snd y]))))
          [0..<count_local_models_m cam])
       (\<lambda>ys. Inr (concat ys))"

text \<open>
  A pixel of the rendered depth image (\<^verbatim>\<open>std::vector<float>\<close>): a depth, or the infinite
  value the renderer writes where no object is hit (\<^verbatim>\<open>std::isinf\<close>).
\<close>

datatype depth_value = Depth real | Infinite

text \<open>
  The renderer (\<^verbatim>\<open>fl::RigidBodyRenderer\<close>) is held through a shared pointer: its state \<open>'r\<close>
  lives outside the model and is passed to and returned by every operation that may touch
  it. \<open>r_state\<close> is \<^verbatim>\<open>renderer_->state(pose)\<close>, \<open>r_Render\<close> is
  \<^verbatim>\<open>renderer_->Render(depth_rendering_)\<close>, which overwrites the vector it is given.
\<close>

record 'r renderer_ops =
  r_state :: "'r \<Rightarrow> real list \<Rightarrow> 'r"
  r_Render :: "'r \<Rightarrow> depth_value list \<Rightarrow> depth_value list \<times> 'r"

text \<open>
  \<open>predictions_cache_m\<close> is the \<^verbatim>\<open>std::unordered_map\<close> from poses to internal states; its
  key comparison is \<^verbatim>\<open>operator==\<close> of the pose vectors, coefficient by coefficient,
  without tolerance: here equality of lists of reals. (A pose with a NaN coefficient is
  outside the model: it compares unequal to every key, itself included, so that
  \<^verbatim>\<open>predictions_cache_[pose]\<close> would create an empty entry at each access and the camera
  model would find no rows to read.)
\<close>

record DepthObservationModel =
  camera_obsrv_model_m :: "real CameraObservationModel"
  model_sigma_m :: real
  camera_sigma_m :: real
  depth_rendering_m :: "depth_value list"
  state_dimension_m :: nat
  pose_state_dimension_m :: nat
  predictions_cache_m :: "real list \<rightharpoonup> real list"

definition DepthObservationModel ::
  "real \<Rightarrow> real \<Rightarrow> nat \<Rightarrow> nat \<Rightarrow> int \<Rightarrow> int \<Rightarrow> error + DepthObservationModel" where
  "DepthObservationModel camera_sigma model_sigma pose_state_dimension state_dimension
       res_rows res_cols =
     (if res_rows > 0 \<and> res_cols > 0 \<and> state_dimension > 0
      then Inr \<lparr>camera_obsrv_model_m =
                  \<lparr>local_obsrv_model_m =
                     PixelObservationModel
                       (1 * ((camera_sigma * camera_sigma) + (model_sigma * model_sigma))),
                   count_local_models_m = nat (res_rows * res_cols)\<rparr>,
                model_sigma_m = model_sigma,
                camera_sigma_m = camera_sigma,
                depth_rendering_m = replicate (nat (res_rows * res_cols)) (Depth 0),
                state_dimension_m = state_dimension,
                pose_state_dimension_m = pose_state_dimension,
                predictions_cache_m = Map.empty\<rparr>
      else Inl AssertionFailed)"

text \<open>
  \<^verbatim>\<open>convert\<close>: row \<open>2 i\<close> is the depth of pixel \<open>i\<close> (7 where it is infinite), row \<open>2 i + 1\<close>
  is row \<open>pose_state_dimension_m + i\<close> of the state.
\<close>

definition convert ::
  "DepthObservationModel \<Rightarrow> depth_value list \<Rightarrow> real list \<Rightarrow> error + real list" where
  "convert m depth state =
     bindE
       (mapE
          (\<lambda>i. bindE (coeff state (pose_state_dimension_m m + i)) (\<lambda>occ.
                Inr [(case depth ! i of Infinite \<Rightarrow> 7 | Depth d \<Rightarrow> d), occ]))
          [0..<length depth])
       (\<lambda>rows. Inr (concat rows))"

text \<open>
  \<^verbatim>\<open>map\<close>: set the renderer's pose, render into \<open>depth_rendering_m\<close>, convert. It returns the
  internal state, the model (with the new \<open>depth_rendering_m\<close>) and the renderer.
\<close>

definition Depth_map ::
  "'r renderer_ops \<Rightarrow> DepthObservationModel \<Rightarrow> 'r \<Rightarrow> real list
     \<Rightarrow> error + (real list \<times> DepthObservationModel \<times> 'r)" where
  "Depth_map rops m r state =
     bindE (topRows state (pose_state_dimension_m m)) (\<lambda>p.
       (let r1 = r_state rops r p;
            rendered = r_Render rops r1 (depth_rendering_m m);
            m1 = m\<lparr>depth_rendering_m := fst rendered\<rparr>
        in bindE (convert m1 (fst rendered) state) (\<lambda>state_internal.
             Inr (state_internal, m1, snd rendered))))"

text \<open>
  \<^verbatim>\<open>predict_observation\<close>: the pose is the first six rows; on a miss
  (\<^verbatim>\<open>find(pose) == end()\<close>) the entry is created and filled by \<^verbatim>\<open>map\<close>; the camera model
  is then applied to the entry \<^verbatim>\<open>predictions_cache_[pose]\<close> (which \<^verbatim>\<open>operator[]\<close> would
  create empty if it were absent).
\<close>

definition Depth_predict_observation ::
  "'r renderer_ops \<Rightarrow> DepthObservationModel \<Rightarrow> 'r \<Rightarrow> real list \<Rightarrow> real list \<Rightarrow> real
     \<Rightarrow> error + (real list \<times> DepthObservationModel \<times> 'r)" where
  "Depth_predict_observation rops m r state noise delta_time =
     bindE (topRows state 6) (\<lambda>pose.
       bindE
         (if predictions_cache_m m pose = None
          then bindE (Depth_map rops m r state) (\<lambda>(state_internal, m1, r1).
                 Inr (m1\<lparr>predictions_cache_m := (predictions_cache_m m1)(pose \<mapsto> state_internal)\<rparr>, r1))
          else Inr (m, r))
         (\<lambda>(m2, r2).
            (let m3 = (case predictions_cache_m m2 pose of
                         None \<Rightarrow> m2\<lparr>predictions_cache_m := (predictions_cache_m m2)(pose \<mapsto> [])\<rparr>
                       | Some _ \<Rightarrow> m2);
                 entry = (case predictions_cache_m m3 pose of None \<Rightarrow> [] | Some e \<Rightarrow> e)
             in bindE (Camera_predict_observation real_ops (camera_obsrv_model_m m3)
                         entry noise delta_time)
                  (\<lambda>y. Inr (y, m3, r2)))))"

definition clear_cache :: "DepthObservationModel \<Rightarrow> DepthObservationModel" where
  "clear_cache m = m\<lparr>predictions_cache_m := Map.empty\<rparr>"

subsection \<open>Continuous occlusion process model\<close>

text \<open>
  The model works on \<^verbatim>\<open>double\<close>. The type of doubles is a parameter \<open>'d\<close>, and so are the
  library functions the source calls on them: what is proved holds for every choice of
  them, IEEE arithmetic with its NaN and infinities included.
\<close>

text \<open>
  \<^verbatim>\<open>fl::TruncatedGaussian\<close>: \<^verbatim>\<open>parameters(mean, sigma, min, max)\<close> sets the four parameters
  of the distribution.
\<close>

record 'd TruncatedGaussian =
  tg_mean :: 'd
  tg_sigma :: 'd
  tg_min :: 'd
  tg_max :: 'd

definition TruncatedGaussian_parameters ::
  "'d TruncatedGaussian \<Rightarrow> 'd \<Rightarrow> 'd \<Rightarrow> 'd \<Rightarrow> 'd \<Rightarrow> 'd TruncatedGaussian" where
  "TruncatedGaussian_parameters g mean sigma min_v max_v =
     g\<lparr>tg_mean := mean, tg_sigma := sigma, tg_min := min_v, tg_max := max_v\<rparr>"

text \<open>
  The functions on doubles: \<^verbatim>\<open>std::isnan\<close>, \<^verbatim>\<open>std::sqrt\<close>, \<^verbatim>\<open>*\<close>, the literals
  \<^verbatim>\<open>0.0\<close> and \<^verbatim>\<open>1.0\<close>, \<^verbatim>\<open>fl::sigmoid\<close>, \<^verbatim>\<open>fl::logit\<close>,
  \<^verbatim>\<open>TruncatedGaussian::map_standard_normal\<close>, and \<open>mixing_sample\<close>, the draw of one sample
  from the occlusion mixing model below: from the two transition probabilities, the
  elapsed time, the initial probability and the state \<open>'g\<close> of the random generator it
  gives the sample and the next state of the generator.
\<close>

record ('d, 'g) double_ops =
  isnan :: "'d \<Rightarrow> bool"
  d_sqrt :: "'d \<Rightarrow> 'd"
  d_times :: "'d \<Rightarrow> 'd \<Rightarrow> 'd"
  d_zero :: 'd
  d_one :: 'd
  sigmoid :: "'d \<Rightarrow> 'd"
  logit :: "'d \<Rightarrow> 'd"
  truncated_map_standard_normal :: "'d TruncatedGaussian \<Rightarrow> 'd \<Rightarrow> 'd"
  mixing_sample :: "'d \<Rightarrow> 'd \<Rightarrow> 'd \<Rightarrow> 'd \<Rightarrow> 'g \<Rightarrow> 'd \<times> 'g"

text \<open>
  Modelled from the spec: the class \<^verbatim>\<open>OcclusionProcessModel\<close>
  (\<^verbatim>\<open>dbot/models/process_models/occlusion_process_model.hpp\<close>), the type of the member
  \<^verbatim>\<open>mean_\<close>, is not among the sources. The specification describes it as a two-state
  continuous-time mixing model, parameterized by the transition probabilities
  "visible to occluded" and "occluded to occluded", that is fed the initial probability and
  the elapsed time, and from which \<^verbatim>\<open>condition\<close> of the occlusion model "draws one sample"
  to get a scalar mean. So \<^verbatim>\<open>condition\<close> of the mixing model stores the elapsed time and
  the probability, and \<^verbatim>\<open>sample\<close> draws: it returns a sample of what is stored and
  advances the random generator the object holds. Nothing is fixed about how the sample
  depends on the generator.
\<close>

record ('d, 'g) OcclusionProcessModel =
  p_occluded_visible_m :: 'd
  p_occluded_occluded_m :: 'd
  delta_time_m :: 'd
  occlusion_probability_m :: 'd
  generator_m :: 'g

definition OcclusionProcessModel_condition ::
  "('d, 'g) OcclusionProcessModel \<Rightarrow> 'd \<Rightarrow> 'd \<Rightarrow> ('d, 'g) OcclusionProcessModel" where
  "OcclusionProcessModel_condition p delta_time occlusion_probability =
     p\<lparr>delta_time_m := delta_time, occlusion_probability_m := occlusion_probability\<rparr>"

definition OcclusionProcessModel_sample ::
  "('d, 'g) double_ops \<Rightarrow> ('d, 'g) OcclusionProcessModel
     \<Rightarrow> 'd \<times> ('d, 'g) OcclusionProcessModel" where
  "OcclusionProcessModel_sample ops p =
     (let drawn = mixing_sample ops (p_occluded_visible_m p) (p_occluded_occluded_m p)
                    (delta_time_m p) (occlusion_probability_m p) (generator_m p)
      in (fst drawn, p\<lparr>generator_m := snd drawn\<rparr>))"

record ('d, 'g) ContinuousOcclusionProcessModel =
  mean_m :: "('d, 'g) OcclusionProcessModel"
  truncated_gaussian_m :: "'d TruncatedGaussian"
  sigma_m :: 'd

text \<open>
  The input of the model is of the empty type \<^verbatim>\<open>internal::Empty\<close> and is left out.
  A call either returns to its caller or ends the process: \<^verbatim>\<open>exit(-1)\<close> after lines written
  to \<^verbatim>\<open>std::cout\<close>. A line is the sequence of texts and numbers streamed into it. The source
  has no other way out: it neither throws nor returns an error value.
\<close>

datatype 'd printed = Text string | Number 'd

datatype ('a, 'd) outcome = Returns 'a | Exits int "'d printed list list"

definition Occlusion_condition ::
  "('d, 'g) double_ops \<Rightarrow> 'd \<Rightarrow> 'd \<Rightarrow> ('d, 'g) ContinuousOcclusionProcessModel
     \<Rightarrow> (('d, 'g) ContinuousOcclusionProcessModel, 'd) outcome" where
  "Occlusion_condition ops delta_time occlusion m =
     (if isnan ops occlusion
      then Exits (- 1) [[Text ''error: received nan occlusion in process model'']]
      else
        (let initial_occlusion_probability = sigmoid ops occlusion;
             mean1 = OcclusionProcessModel_condition (mean_m m) delta_time
                       initial_occlusion_probability;
             sampled = OcclusionProcessModel_sample ops mean1;
             mean = fst sampled
         in if isnan ops mean
            then Exits (- 1)
                   [[Text ''error: produced nan mean in process model''],
                    [Text ''delta_time '', Number delta_time],
                    [Text ''initial_occlusion_probability '',
                     Number initial_occlusion_probability]]
            else Returns
                   (m\<lparr>mean_m := snd sampled,
                      truncated_gaussian_m :=
                        TruncatedGaussian_parameters (truncated_gaussian_m m) mean
                          (d_times ops (sigma_m m) (d_sqrt ops delta_time))
                          (d_zero ops) (d_one ops)\<rparr>)))"

definition Occlusion_map_standard_normal ::
  "('d, 'g) double_ops \<Rightarrow> ('d, 'g) ContinuousOcclusionProcessModel \<Rightarrow> 'd \<Rightarrow> ('d, 'd) outcome" where
  "Occlusion_map_standard_normal ops m sample =
     (let l = logit ops (truncated_map_standard_normal ops (truncated_gaussian_m m) sample)
      in if isnan ops l
         then Exits (- 1) [[Text ''error: produced nan occlusion in process model'']]
         else Returns l)"

definition Occlusion_predict_state ::
  "('d, 'g) double_ops \<Rightarrow> 'd \<Rightarrow> 'd \<Rightarrow> 'd \<Rightarrow> ('d, 'g) ContinuousOcclusionProcessModel
     \<Rightarrow> ('d \<times> ('d, 'g) ContinuousOcclusionProcessModel, 'd) outcome" where
  "Occlusion_predict_state ops delta_time state noise m =
     (case Occlusion_condition ops delta_time state m of
        Exits code out \<Rightarrow> Exits code out
      | Returns m1 \<Rightarrow>
          (case Occlusion_map_standard_normal ops m1 noise of
             Exits code out \<Rightarrow> Exits code out
           | Returns l \<Rightarrow> Returns (l, m1)))"

text \<open>
  The sample that \<^verbatim>\<open>condition\<close> draws for a model, a time step and an occlusion value:
  what \<^verbatim>\<open>mean_.sample()\<close> returns after \<^verbatim>\<open>mean_.condition(...)\<close>.
\<close>

definition drawn_mean ::
  "('d, 'g) double_ops \<Rightarrow> 'd \<Rightarrow> 'd \<Rightarrow> ('d, 'g) ContinuousOcclusionProcessModel \<Rightarrow> 'd" where
  "drawn_mean ops delta_time occlusion m =
     fst (mixing_sample ops (p_occluded_visible_m (mean_m m)) (p_occluded_occluded_m (mean_m m))
            delta_time (sigmoid ops occlusion) (generator_m (mean_m m)))"

subsection \<open>Brownian object motion model\<close>

text \<open>
  Scalars are real numbers. Fixed-size Eigen vectors and matrices are tuples: a 3-vector,
  a 6-vector as its top and bottom three rows, quaternion coefficients in Eigen's order
  \<open>(x, y, z, w)\<close>, matrices by rows.
\<close>

type_synonym vec3 = "real \<times> real \<times> real"
type_synonym vec6 = "vec3 \<times> vec3"
type_synonym quat = "real \<times> real \<times> real \<times> real"
type_synonym mat33 = "vec3 \<times> vec3 \<times> vec3"
type_synonym mat43 = "vec3 \<times> vec3 \<times> vec3 \<times> vec3"

definition Vector3d_Zero :: vec3 where
  "Vector3d_Zero = (0, 0, 0)"

fun vadd :: "vec3 \<Rightarrow> vec3 \<Rightarrow> vec3" where
  "vadd (a1, a2, a3) (b1, b2, b3) = (a1 + b1, a2 + b2, a3 + b3)"

fun vsub :: "vec3 \<Rightarrow> vec3 \<Rightarrow> vec3" where
  "vsub (a1, a2, a3) (b1, b2, b3) = (a1 - b1, a2 - b2, a3 - b3)"

fun smul :: "real \<Rightarrow> vec3 \<Rightarrow> vec3" where
  "smul c (a1, a2, a3) = (c * a1, c * a2, c * a3)"

fun dot :: "vec3 \<Rightarrow> vec3 \<Rightarrow> real" where
  "dot (a1, a2, a3) (b1, b2, b3) = a1 * b1 + a2 * b2 + a3 * b3"

fun cross :: "vec3 \<Rightarrow> vec3 \<Rightarrow> vec3" where
  "cross (a1, a2, a3) (b1, b2, b3) = (a2 * b3 - a3 * b2, a3 * b1 - a1 * b3, a1 * b2 - a2 * b1)"

fun mat33_times :: "mat33 \<Rightarrow> vec3 \<Rightarrow> vec3" where
  "mat33_times (r1, r2, r3) v = (dot r1 v, dot r2 v, dot r3 v)"

fun mat43_times :: "mat43 \<Rightarrow> vec3 \<Rightarrow> quat" where
  "mat43_times (r1, r2, r3, r4) v = (dot r1 v, dot r2 v, dot r3 v, dot r4 v)"

fun qadd :: "quat \<Rightarrow> quat \<Rightarrow> quat" where
  "qadd (x1, y1, z1, w1) (x2, y2, z2, w2) = (x1 + x2, y1 + y2, z1 + z2, w1 + w2)"

fun qdot :: "quat \<Rightarrow> quat \<Rightarrow> real" where
  "qdot (x1, y1, z1, w1) (x2, y2, z2, w2) = x1 * x2 + y1 * y2 + z1 * z2 + w1 * w2"

definition qnorm :: "quat \<Rightarrow> real" where
  "qnorm q = sqrt (qdot q q)"

text \<open>
  \<^verbatim>\<open>Quaternion::normalized()\<close> divides the coefficients by their norm. For the zero
  quaternion the source divides by zero and the result is no unit quaternion; here the
  quotient by zero is zero, so neither is the result of the model.
\<close>

fun normalized :: "quat \<Rightarrow> quat" where
  "normalized (x, y, z, w) =
     (let n = qnorm (x, y, z, w) in (x / n, y / n, z / n, w / n))"

text \<open>
  Modelled from the spec: the state class \<^verbatim>\<open>FreeFloatingRigidBodiesState\<close>
  (\<^verbatim>\<open>dbot/states/free_floating_rigid_bodies_state.hpp\<close>) is not among the sources. The
  specification's data model: an ordered collection of bodies, each with a position, an
  orientation quaternion (of unit norm), a linear and an angular velocity;
  \<^verbatim>\<open>rotation_matrix(i)\<close> is the rotation matrix of the orientation of body \<open>i\<close>.
\<close>

record body =
  position :: vec3
  orientation :: quat
  linear_velocity :: vec3
  angular_velocity :: vec3

definition toRotationMatrix :: "quat \<Rightarrow> mat33" where
  "toRotationMatrix q =
     (case q of (x, y, z, w) \<Rightarrow>
        ((1 - (2 * y * y + 2 * z * z), 2 * y * x - 2 * z * w, 2 * z * x + 2 * y * w),
         (2 * y * x + 2 * z * w, 1 - (2 * x * x + 2 * z * z), 2 * z * y - 2 * x * w),
         (2 * z * x - 2 * y * w, 2 * z * y + 2 * x * w, 1 - (2 * x * x + 2 * y * y))))"

definition rotation_matrix :: "body \<Rightarrow> mat33" where
  "rotation_matrix b = toRotationMatrix (orientation b)"

text \<open>
  The collaborators of the filtering library: \<^verbatim>\<open>fl::quaternion_matrix\<close>, and the process
  \<^verbatim>\<open>IntegratedDampedWienerProcessModel\<close> with its \<^verbatim>\<open>condition\<close>, \<^verbatim>\<open>map_standard_normal\<close>
  and \<^verbatim>\<open>parameters\<close>; \<open>'p\<close> is the type of a process object.
\<close>

record 'p fl_ops =
  quaternion_matrix :: "quat \<Rightarrow> mat43"
  process_condition :: "'p \<Rightarrow> real \<Rightarrow> vec6 \<Rightarrow> vec3 \<Rightarrow> 'p"
  process_map_standard_normal :: "'p \<Rightarrow> vec3 \<Rightarrow> vec6"
  process_parameters :: "'p \<Rightarrow> real \<Rightarrow> mat33 \<Rightarrow> 'p"

record 'p BrownianObjectMotionModel =
  state_m :: "body list"
  quaternion_map_m :: "mat43 list"
  rotation_center_m :: "vec3 list"
  linear_process_m :: "'p list"
  angular_process_m :: "'p list"

text \<open>\<^verbatim>\<open>v.template middleRows<3>(k)\<close> of the noise or control vector.\<close>

definition middleRows3 :: "real list \<Rightarrow> nat \<Rightarrow> error + vec3" where
  "middleRows3 v k = bindE (middleRows v k 3) (\<lambda>rows. Inr (rows ! 0, rows ! 1, rows ! 2))"

definition Brownian_parameters ::
  "'p fl_ops \<Rightarrow> nat \<Rightarrow> vec3 \<Rightarrow> real \<Rightarrow> mat33 \<Rightarrow> mat33 \<Rightarrow> 'p BrownianObjectMotionModel
     \<Rightarrow> error + 'p BrownianObjectMotionModel" where
  "Brownian_parameters fl object_index rotation_center damping
       linear_acceleration_covariance angular_acceleration_covariance m =
     (if object_index < length (rotation_center_m m)
         \<and> object_index < length (linear_process_m m)
         \<and> object_index < length (angular_process_m m)
      then Inr (m\<lparr>rotation_center_m := (rotation_center_m m)[object_index := rotation_center],
                  linear_process_m := (linear_process_m m)
                    [object_index := process_parameters fl (linear_process_m m ! object_index)
                                       damping linear_acceleration_covariance],
                  angular_process_m := (angular_process_m m)
                    [object_index := process_parameters fl (angular_process_m m ! object_index)
                                       damping angular_acceleration_covariance]\<rparr>)
      else Inl IndexOutOfRange)"

text \<open>
  The body of the loop of \<^verbatim>\<open>condition\<close> for index \<open>i\<close>, in the order of the source: the
  quaternion map, the position moved to the rotation center, the linear velocity (with
  the position just written), the linear and the angular process.
\<close>

definition Brownian_condition_body ::
  "'p fl_ops \<Rightarrow> real \<Rightarrow> real list \<Rightarrow> nat \<Rightarrow> 'p BrownianObjectMotionModel
     \<Rightarrow> error + 'p BrownianObjectMotionModel" where
  "Brownian_condition_body fl delta_time control i m =
     (if i < length (state_m m) \<and> i < length (quaternion_map_m m)
         \<and> i < length (rotation_center_m m)
         \<and> i < length (linear_process_m m) \<and> i < length (angular_process_m m)
      then
        (let b = state_m m ! i;
             q_map = quaternion_matrix fl (orientation b);
             pos = vadd (position b) (mat33_times (rotation_matrix b) (rotation_center_m m ! i));
             b1 = b\<lparr>position := pos\<rparr>;
             lin = vadd (linear_velocity b1) (cross (angular_velocity b1) (position b1));
             b2 = b1\<lparr>linear_velocity := lin\<rparr>
         in bindE (middleRows3 control (i * 6)) (\<lambda>linear_control.
              bindE (middleRows3 control (i * 6 + 3)) (\<lambda>angular_control.
                Inr (m\<lparr>state_m := (state_m m)[i := b2],
                       quaternion_map_m := (quaternion_map_m m)[i := q_map],
                       linear_process_m := (linear_process_m m)
                         [i := process_condition fl (linear_process_m m ! i) delta_time
                                 (Vector3d_Zero, linear_velocity b2) linear_control],
                       angular_process_m := (angular_process_m m)
                         [i := process_condition fl (angular_process_m m ! i) delta_time
                                 (Vector3d_Zero, angular_velocity b2) angular_control]\<rparr>))))
      else Inl IndexOutOfRange)"

definition Brownian_condition ::
  "'p fl_ops \<Rightarrow> real \<Rightarrow> body list \<Rightarrow> real list \<Rightarrow> 'p BrownianObjectMotionModel
     \<Rightarrow> error + 'p BrownianObjectMotionModel" where
  "Brownian_condition fl delta_time state control m =
     foldE (Brownian_condition_body fl delta_time control) [0..<length state]
       (m\<lparr>state_m := state\<rparr>)"

text \<open>
  The body of the loop of \<^verbatim>\<open>map_standard_normal\<close>: every field of body \<open>i\<close> of the new
  state is written, so the body is built as a whole.
\<close>

definition Brownian_map_standard_normal_body ::
  "'p fl_ops \<Rightarrow> 'p BrownianObjectMotionModel \<Rightarrow> real list \<Rightarrow> nat \<Rightarrow> error + body" where
  "Brownian_map_standard_normal_body fl m sample i =
     (if i < length (state_m m) \<and> i < length (quaternion_map_m m)
         \<and> i < length (rotation_center_m m)
         \<and> i < length (linear_process_m m) \<and> i < length (angular_process_m m)
      then
        bindE (middleRows3 sample (i * 6)) (\<lambda>position_noise.
          bindE (middleRows3 sample (i * 6 + 3)) (\<lambda>orientation_noise.
            (let linear_delta = process_map_standard_normal fl (linear_process_m m ! i)
                                  position_noise;
                 angular_delta = process_map_standard_normal fl (angular_process_m m ! i)
                                   orientation_noise;
                 old = state_m m ! i;
                 pos = vadd (position old) (fst linear_delta);
                 updated_quaternion = qadd (orientation old)
                                        (mat43_times (quaternion_map_m m ! i) (fst angular_delta));
                 n1 = \<lparr>position = pos, orientation = normalized updated_quaternion,
                       linear_velocity = snd linear_delta,
                       angular_velocity = snd angular_delta\<rparr>;
                 n2 = n1\<lparr>linear_velocity :=
                          vsub (linear_velocity n1) (cross (angular_velocity n1) (position old))\<rparr>;
                 n3 = n2\<lparr>position :=
                          vsub (position n2)
                            (mat33_times (rotation_matrix n2) (rotation_center_m m ! i))\<rparr>
             in Inr n3)))
      else Inl IndexOutOfRange)"

definition Brownian_map_standard_normal ::
  "'p fl_ops \<Rightarrow> 'p BrownianObjectMotionModel \<Rightarrow> real list \<Rightarrow> error + body list" where
  "Brownian_map_standard_normal fl m sample =
     mapE (Brownian_map_standard_normal_body fl m sample) [0..<length (state_m m)]"

text \<open>
  \<^verbatim>\<open>predict_state\<close>: \<^verbatim>\<open>condition\<close>, then \<^verbatim>\<open>map_standard_normal\<close>. The new state is
  returned by value, next to the model as \<^verbatim>\<open>condition\<close> left it.
\<close>

definition Brownian_predict_state ::
  "'p fl_ops \<Rightarrow> real \<Rightarrow> body list \<Rightarrow> real list \<Rightarrow> real list \<Rightarrow> 'p BrownianObjectMotionModel
     \<Rightarrow> error + (body list \<times> 'p BrownianObjectMotionModel)" where
  "Brownian_predict_state fl delta_time state noise input m =
     bindE (Brownian_condition fl delta_time state input m) (\<lambda>m1.
       bindE (Brownian_map_standard_normal fl m1 noise) (\<lambda>new_state.
         Inr (new_state, m1)))"

text \<open>
  The call of \<^verbatim>\<open>predict_state\<close> by the filter, with the objects it involves: the state
  object of the caller, passed as \<^verbatim>\<open>const State&\<close>, and the model. The call reads the
  caller's object; the source writes to the model's own copy \<^verbatim>\<open>state_\<close> and to the
  local \<^verbatim>\<open>new_state\<close> only.
\<close>

record 'p filter_memory =
  caller_state :: "body list"
  motion_model :: "'p BrownianObjectMotionModel"

definition call_predict_state ::
  "'p fl_ops \<Rightarrow> real \<Rightarrow> real list \<Rightarrow> real list \<Rightarrow> 'p filter_memory
     \<Rightarrow> error + (body list \<times> 'p filter_memory)" where
  "call_predict_state fl delta_time noise input mem =
     bindE (Brownian_predict_state fl delta_time (caller_state mem) noise input
              (motion_model mem))
       (\<lambda>(returned, m1). Inr (returned, mem\<lparr>motion_model := m1\<rparr>))"

text \<open>
  The dynamics without the switch of representation, as the specification's round-trip
  property words them ("what the pivot-free dynamics alone would produce"): the two
  processes are conditioned on the external velocities of the body, and their deltas are
  applied to the external state.
\<close>

definition pivot_free_body ::
  "'p fl_ops \<Rightarrow> real \<Rightarrow> real list \<Rightarrow> real list \<Rightarrow> 'p BrownianObjectMotionModel \<Rightarrow> body list
     \<Rightarrow> nat \<Rightarrow> error + body" where
  "pivot_free_body fl delta_time control sample m state i =
     (if i < length state \<and> i < length (linear_process_m m) \<and> i < length (angular_process_m m)
      then
        bindE (middleRows3 control (i * 6)) (\<lambda>linear_control.
          bindE (middleRows3 control (i * 6 + 3)) (\<lambda>angular_control.
            bindE (middleRows3 sample (i * 6)) (\<lambda>position_noise.
              bindE (middleRows3 sample (i * 6 + 3)) (\<lambda>orientation_noise.
                (let b = state ! i;
                     linear_delta = process_map_standard_normal fl
                        (process_condition fl (linear_process_m m ! i) delta_time
                           (Vector3d_Zero, linear_velocity b) linear_control) position_noise;
                     angular_delta = process_map_standard_normal fl
                        (process_condition fl (angular_process_m m ! i) delta_time
                           (Vector3d_Zero, angular_velocity b) angular_control) orientation_noise
                 in Inr \<lparr>position = vadd (position b) (fst linear_delta),
                         orientation = normalized (qadd (orientation b)
                            (mat43_times (quaternion_matrix fl (orientation b))
                               (fst angular_delta))),
                         linear_velocity = snd linear_delta,
                         angular_velocity = snd angular_delta\<rparr>)))))
      else Inl IndexOutOfRange)"

definition pivot_free_predict_state ::
  "'p fl_ops \<Rightarrow> real \<Rightarrow> body list \<Rightarrow> real list \<Rightarrow> real list \<Rightarrow> 'p BrownianObjectMotionModel
     \<Rightarrow> error + body list" where
  "pivot_free_predict_state fl delta_time state noise input m =
     mapE (pivot_free_body fl delta_time input noise m state) [0..<length state]"

text \<open>
  Auxiliary notions for the proofs about \<^verbatim>\<open>condition\<close>: three consecutive rows of a vector,
  the internal representation of a body (what the loop writes to \<^verbatim>\<open>state_\<close>), and the
  state of the model after the first \<open>k\<close> rounds of the loop.
\<close>

definition row3 :: "real list \<Rightarrow> nat \<Rightarrow> vec3" where
  "row3 v k = (v ! k, v ! (k + 1), v ! (k + 2))"

definition internal_body :: "vec3 \<Rightarrow> body \<Rightarrow> body" where
  "internal_body c b =
     b\<lparr>position := vadd (position b) (mat33_times (rotation_matrix b) c),
       linear_velocity :=
         vadd (linear_velocity b)
           (cross (angular_velocity b) (vadd (position b) (mat33_times (rotation_matrix b) c)))\<rparr>"

definition conditioned_upto ::
  "'p fl_ops \<Rightarrow> real \<Rightarrow> body list \<Rightarrow> real list \<Rightarrow> 'p BrownianObjectMotionModel \<Rightarrow> nat
     \<Rightarrow> 'p BrownianObjectMotionModel \<Rightarrow> bool" where
  "conditioned_upto fl delta_time state control m k s \<longleftrightarrow>
     length (state_m s) = length state
     \<and> length (quaternion_map_m s) = length (quaternion_map_m m)
     \<and> rotation_center_m s = rotation_center_m m
     \<and> length (linear_process_m s) = length (linear_process_m m)
     \<and> length (angular_process_m s) = length (angular_process_m m)
     \<and> k \<le> length (quaternion_map_m m) \<and> k \<le> length (rotation_center_m m)
     \<and> k \<le> length (linear_process_m m) \<and> k \<le> length (angular_process_m m)
     \<and> k * 6 \<le> length control
     \<and> (\<forall>i<k.
           state_m s ! i = internal_body (rotation_center_m m ! i) (state ! i)
           \<and> quaternion_map_m s ! i = quaternion_matrix fl (orientation (state ! i))
           \<and> linear_process_m s ! i =
               process_condition fl (linear_process_m m ! i) delta_time
                 (Vector3d_Zero,
                  linear_velocity (internal_body (rotation_center_m m ! i) (state ! i)))
                 (row3 control (i * 6))
           \<and> angular_process_m s ! i =
               process_condition fl (angular_process_m m ! i) delta_time
                 (Vector3d_Zero, angular_velocity (state ! i)) (row3 control (i * 6 + 3)))
     \<and> (\<forall>i\<ge>k.
           state_m s ! i = state ! i
           \<and> quaternion_map_m s ! i = quaternion_map_m m ! i
           \<and> linear_process_m s ! i = linear_process_m m ! i
           \<and> angular_process_m s ! i = angular_process_m m ! i)"

text \<open>
  The local \<^verbatim>\<open>updated_quaternion\<close> of \<^verbatim>\<open>map_standard_normal\<close> for body \<open>i\<close>, written in
  terms of what \<^verbatim>\<open>condition\<close> was called with: the orientation of the body plus the
  quaternion map at that orientation applied to the first three rows of the delta of the
  angular process, the process conditioned on the angular velocity of the body and the
  rows of the control.
\<close>

definition updated_quaternion ::
  "'p fl_ops \<Rightarrow> real \<Rightarrow> body list \<Rightarrow> real list \<Rightarrow> 'p BrownianObjectMotionModel \<Rightarrow> real list
     \<Rightarrow> nat \<Rightarrow> quat" where
  "updated_quaternion fl delta_time state control m noise i =
     (let q = orientation (state ! i);
          angular_process =
            process_condition fl (angular_process_m m ! i) delta_time
              (Vector3d_Zero, angular_velocity (state ! i)) (row3 control (i * 6 + 3));
          angular_delta = process_map_standard_normal fl angular_process (row3 noise (i * 6 + 3))
      in qadd q (mat43_times (quaternion_matrix fl q) (fst angular_delta)))"

subsection \<open>A concrete renderer and camera for the worked examples\<close>

record example_renderer =
  scene :: "depth_value list"
  pose_set :: "real list"
  render_count :: nat

definition example_rops :: "example_renderer renderer_ops" where
  "example_rops =
     \<lparr>r_state = (\<lambda>r p. r\<lparr>pose_set := p\<rparr>),
      r_Render = (\<lambda>r d. (map (\<lambda>v. case v of Depth x \<Rightarrow> Depth (x + sum_list (pose_set r)) | Infinite \<Rightarrow> Infinite) (scene r),
                          r\<lparr>render_count := Suc (render_count r)\<rparr>))\<rparr>"

definition example_depth_model :: DepthObservationModel where
  "example_depth_model =
     \<lparr>camera_obsrv_model_m =
        \<lparr>local_obsrv_model_m = \<lparr>covariance = 2\<rparr>, count_local_models_m = 2\<rparr>,
      model_sigma_m = 1, camera_sigma_m = 1,
      depth_rendering_m = [Depth 0, Depth 0], state_dimension_m = 8,
      pose_state_dimension_m = 6, predictions_cache_m = Map.empty\<rparr>"

definition example_scene :: example_renderer where
  "example_scene = \<lparr>scene = [Depth 1, Infinite], pose_set = [], render_count = 0\<rparr>"

definition example_model_after :: DepthObservationModel where
  "example_model_after =
     example_depth_model\<lparr>depth_rendering_m := [Depth 1, Infinite],
        predictions_cache_m := [[0,0,0,0,0,0] \<mapsto> [1, 0, 7, 0]]\<rparr>"

definition example_scene_after :: example_renderer where
  "example_scene_after = example_scene\<lparr>pose_set := [0,0,0,0,0,0], render_count := 1\<rparr>"


definition example_state_shifted :: "real list" where
  "example_state_shifted = [0, 0, 1 / 1024, 0, 0, 0, 0, 0]"

definition example_depth_model_3_4 :: DepthObservationModel where
  "example_depth_model_3_4 =
     \<lparr>camera_obsrv_model_m =
        \<lparr>local_obsrv_model_m = \<lparr>covariance = 25\<rparr>, count_local_models_m = 2\<rparr>,
      model_sigma_m = 4, camera_sigma_m = 3,
      depth_rendering_m = [Depth 0, Depth 0], state_dimension_m = 8,
      pose_state_dimension_m = 6, predictions_cache_m = Map.empty\<rparr>"

text \<open>
  The scale factor as the specification words it, "the noise standard deviation configured
  at construction": the square root of the variance the constructor configures. It is
  compared with the factor the code uses.
\<close>

definition noise_standard_deviation :: "real \<Rightarrow> real \<Rightarrow> real" where
  "noise_standard_deviation camera_sigma model_sigma =
     sqrt (camera_sigma * camera_sigma + model_sigma * model_sigma)"

subsection \<open>A concrete arithmetic for the worked examples of the occlusion model\<close>

text \<open>
  Doubles without rounding: a real number, an infinity or NaN. The truncated Gaussian's map
  is replaced by a stand-in of the same range (the Gaussian's affine map, clamped to the
  interval). The mean of the mixing model is the two-state chain run for the elapsed time.
  Two samplers: one whose sample is that mean, whatever the generator; one that draws one
  of the two states, occluded (1) with the probability of the mean and visible (0)
  otherwise, from a small congruential generator.
\<close>

datatype example_double = Finite real | PlusInfinity | MinusInfinity | NaN

fun example_sqrt :: "example_double \<Rightarrow> example_double" where
  "example_sqrt (Finite x) = (if x < 0 then NaN else Finite (sqrt x))"
| "example_sqrt PlusInfinity = PlusInfinity"
| "example_sqrt MinusInfinity = NaN"
| "example_sqrt NaN = NaN"

fun example_times :: "example_double \<Rightarrow> example_double \<Rightarrow> example_double" where
  "example_times (Finite x) (Finite y) = Finite (x * y)"
| "example_times NaN y = NaN"
| "example_times x NaN = NaN"
| "example_times (Finite x) PlusInfinity =
     (if x = 0 then NaN else if 0 < x then PlusInfinity else MinusInfinity)"
| "example_times (Finite x) MinusInfinity =
     (if x = 0 then NaN else if 0 < x then MinusInfinity else PlusInfinity)"
| "example_times PlusInfinity (Finite y) =
     (if y = 0 then NaN else if 0 < y then PlusInfinity else MinusInfinity)"
| "example_times MinusInfinity (Finite y) =
     (if y = 0 then NaN else if 0 < y then MinusInfinity else PlusInfinity)"
| "example_times PlusInfinity PlusInfinity = PlusInfinity"
| "example_times MinusInfinity MinusInfinity = PlusInfinity"
| "example_times PlusInfinity MinusInfinity = MinusInfinity"
| "example_times MinusInfinity PlusInfinity = MinusInfinity"

fun example_sigmoid :: "example_double \<Rightarrow> example_double" where
  "example_sigmoid (Finite x) = Finite (1 / (1 + exp (- x)))"
| "example_sigmoid PlusInfinity = Finite 1"
| "example_sigmoid MinusInfinity = Finite 0"
| "example_sigmoid NaN = NaN"

fun example_logit :: "example_double \<Rightarrow> example_double" where
  "example_logit (Finite p) =
     (if p < 0 \<or> 1 < p then NaN
      else if p = 0 then MinusInfinity
      else if p = 1 then PlusInfinity
      else Finite (ln (p / (1 - p))))"
| "example_logit PlusInfinity = NaN"
| "example_logit MinusInfinity = NaN"
| "example_logit NaN = NaN"

fun example_truncated_map :: "example_double TruncatedGaussian \<Rightarrow> example_double \<Rightarrow> example_double" where
  "example_truncated_map g (Finite z) =
     (case (tg_mean g, tg_sigma g, tg_min g, tg_max g) of
        (Finite mu, Finite s, Finite lo, Finite hi) \<Rightarrow> Finite (max lo (min hi (mu + s * z)))
      | _ \<Rightarrow> NaN)"
| "example_truncated_map g PlusInfinity = tg_max g"
| "example_truncated_map g MinusInfinity = tg_min g"
| "example_truncated_map g NaN = NaN"

fun example_mixing_mean ::
  "example_double \<Rightarrow> example_double \<Rightarrow> example_double \<Rightarrow> example_double \<Rightarrow> example_double" where
  "example_mixing_mean (Finite p_ov) (Finite p_oo) (Finite t) (Finite p) =
     (if p_oo - p_ov \<le> 0 \<or> p_oo - p_ov = 1 then NaN
      else Finite (1 - ((p_oo - p_ov) powr t * (1 - p)
                          + (1 - p_oo) * ((p_oo - p_ov) powr t - 1) / (p_oo - p_ov - 1))))"
| "example_mixing_mean a b c d = NaN"

definition example_mean_sample ::
  "example_double \<Rightarrow> example_double \<Rightarrow> example_double \<Rightarrow> example_double \<Rightarrow> nat
     \<Rightarrow> example_double \<times> nat" where
  "example_mean_sample p_ov p_oo t p g = (example_mixing_mean p_ov p_oo t p, g)"

definition example_state_sample ::
  "example_double \<Rightarrow> example_double \<Rightarrow> example_double \<Rightarrow> example_double \<Rightarrow> nat
     \<Rightarrow> example_double \<times> nat" where
  "example_state_sample p_ov p_oo t p g =
     (let g1 = (5 * g + 3) mod 16
      in (case example_mixing_mean p_ov p_oo t p of
            Finite q \<Rightarrow> (if real g1 / 16 < q then Finite 1 else Finite 0)
          | PlusInfinity \<Rightarrow> NaN
          | MinusInfinity \<Rightarrow> NaN
          | NaN \<Rightarrow> NaN,
          g1))"

definition example_double_ops :: "(example_double, nat) double_ops" where
  "example_double_ops =
     \<lparr>isnan = (\<lambda>x. x = NaN),
      d_sqrt = example_sqrt,
      d_times = example_times,
      d_zero = Finite 0,
      d_one = Finite 1,
      sigmoid = example_sigmoid,
      logit = example_logit,
      truncated_map_standard_normal = example_truncated_map,
      mixing_sample = example_mean_sample\<rparr>"

definition example_drawing_ops :: "(example_double, nat) double_ops" where
  "example_drawing_ops = example_double_ops\<lparr>mixing_sample := example_state_sample\<rparr>"

text \<open>
  The model of the specification's scenario: transition probabilities 0.9 and 0.95, sigma
  0.1; nothing conditioned yet. Then the model after \<^verbatim>\<open>condition\<close> with time step 1 and
  log-odds 0 under the first sampler.
\<close>

definition example_occlusion_model ::
  "(example_double, nat) ContinuousOcclusionProcessModel" where
  "example_occlusion_model =
     \<lparr>mean_m = \<lparr>p_occluded_visible_m = Finite (9 / 10), p_occluded_occluded_m = Finite (95 / 100),
                 delta_time_m = Finite 0, occlusion_probability_m = Finite 0,
                 generator_m = 5\<rparr>,
      truncated_gaussian_m = \<lparr>tg_mean = Finite 0, tg_sigma = Finite 0, tg_min = Finite 0,
                               tg_max = Finite 0\<rparr>,
      sigma_m = Finite (1 / 10)\<rparr>"

definition example_occlusion_conditioned ::
  "(example_double, nat) ContinuousOcclusionProcessModel" where
  "example_occlusion_conditioned =
     \<lparr>mean_m = \<lparr>p_occluded_visible_m = Finite (9 / 10), p_occluded_occluded_m = Finite (95 / 100),
                 delta_time_m = Finite 1, occlusion_probability_m = Finite (1 / 2),
                 generator_m = 5\<rparr>,
      truncated_gaussian_m = \<lparr>tg_mean = Finite (37 / 40), tg_sigma = Finite (1 / 10),
                               tg_min = Finite 0, tg_max = Finite 1\<rparr>,
      sigma_m = Finite (1 / 10)\<rparr>"



subsection \<open>A concrete process and quaternion map for the worked examples of the motion model\<close>

text \<open>
  A stand-in for the stochastic integrator: the undamped double integrator, with the noise
  sample added to the acceleration. Conditioning stores the time step, the state and the
  control; the delta is the state advanced by the time step.
\<close>

record example_process =
  ep_damping :: real
  ep_covariance :: mat33
  ep_delta_time :: real
  ep_state :: vec6
  ep_input :: vec3

definition example_process_condition ::
  "example_process \<Rightarrow> real \<Rightarrow> vec6 \<Rightarrow> vec3 \<Rightarrow> example_process" where
  "example_process_condition p delta_time s u =
     p\<lparr>ep_delta_time := delta_time, ep_state := s, ep_input := u\<rparr>"

definition example_process_map :: "example_process \<Rightarrow> vec3 \<Rightarrow> vec6" where
  "example_process_map p z =
     (let t = ep_delta_time p; a = vadd (ep_input p) z
      in (vadd (vadd (fst (ep_state p)) (smul t (snd (ep_state p)))) (smul (t * t / 2) a),
          vadd (snd (ep_state p)) (smul t a)))"

definition example_process_parameters :: "example_process \<Rightarrow> real \<Rightarrow> mat33 \<Rightarrow> example_process" where
  "example_process_parameters p damping cov = p\<lparr>ep_damping := damping, ep_covariance := cov\<rparr>"

text \<open>The quaternion map: half the matrix of the quaternion product, as the library has it.\<close>

definition example_quaternion_matrix :: "quat \<Rightarrow> mat43" where
  "example_quaternion_matrix q =
     (case q of (x, y, z, w) \<Rightarrow>
        ((w / 2, z / 2, - y / 2),
         (- z / 2, w / 2, x / 2),
         (y / 2, - x / 2, w / 2),
         (- x / 2, - y / 2, - z / 2)))"

definition example_fl :: "example_process fl_ops" where
  "example_fl =
     \<lparr>quaternion_matrix = example_quaternion_matrix,
      process_condition = example_process_condition,
      process_map_standard_normal = example_process_map,
      process_parameters = example_process_parameters\<rparr>"

definition example_process_0 :: example_process where
  "example_process_0 =
     \<lparr>ep_damping = 0, ep_covariance = ((1, 0, 0), (0, 1, 0), (0, 0, 1)),
      ep_delta_time = 0, ep_state = ((0, 0, 0), (0, 0, 0)), ep_input = (0, 0, 0)\<rparr>"

text \<open>
  One body at \<open>(1, 0, 0)\<close> with the identity orientation, at rest but turning about the
  z axis; a model for one body with the rotation center \<open>(0, 0, 0)\<close>.
\<close>

definition example_body :: body where
  "example_body =
     \<lparr>position = (1, 0, 0), orientation = (0, 0, 0, 1),
      linear_velocity = (0, 0, 0), angular_velocity = (0, 0, 3 / 2)\<rparr>"

definition example_motion_model :: "example_process BrownianObjectMotionModel" where
  "example_motion_model =
     \<lparr>state_m = [\<lparr>position = (0, 0, 0), orientation = (0, 0, 0, 1),
                   linear_velocity = (0, 0, 0), angular_velocity = (0, 0, 0)\<rparr>],
      quaternion_map_m = [((0, 0, 0), (0, 0, 0), (0, 0, 0), (0, 0, 0))],
      rotation_center_m = [(0, 0, 0)],
      linear_process_m = [example_process_0],
      angular_process_m = [example_process_0]\<rparr>"

text \<open>The model after \<^verbatim>\<open>condition\<close> with time step 1 and no control, and the predicted body.\<close>

definition example_motion_conditioned :: "example_process BrownianObjectMotionModel" where
  "example_motion_conditioned =
     \<lparr>state_m = [\<lparr>position = (1, 0, 0), orientation = (0, 0, 0, 1),
                   linear_velocity = (0, 3 / 2, 0), angular_velocity = (0, 0, 3 / 2)\<rparr>],
      quaternion_map_m = [((1 / 2, 0, 0), (0, 1 / 2, 0), (0, 0, 1 / 2), (0, 0, 0))],
      rotation_center_m = [(0, 0, 0)],
      linear_process_m = [example_process_0\<lparr>ep_delta_time := 1,
                            ep_state := ((0, 0, 0), (0, 3 / 2, 0))\<rparr>],
      angular_process_m = [example_process_0\<lparr>ep_delta_time := 1,
                             ep_state := ((0, 0, 0), (0, 0, 3 / 2))\<rparr>]\<rparr>"

definition example_predicted :: body where
  "example_predicted =
     \<lparr>position = (1, 3 / 2, 0), orientation = (0, 0, 3 / 5, 4 / 5),
      linear_velocity = (0, 0, 0), angular_velocity = (0, 0, 3 / 2)\<rparr>"

definition example_pivot_free :: body where
  "example_pivot_free =
     \<lparr>position = (1, 0, 0), orientation = (0, 0, 3 / 5, 4 / 5),
      linear_velocity = (0, 0, 0), angular_velocity = (0, 0, 3 / 2)\<rparr>"

definition zero6 :: "real list" where
  "zero6 = [0, 0, 0, 0, 0, 0]"

text \<open>A body that moves along the x axis without turning, and its prediction.\<close>

definition example_body_moving :: body where
  "example_body_moving =
     \<lparr>position = (1, 0, 0), orientation = (0, 0, 0, 1),
      linear_velocity = (2, 0, 0), angular_velocity = (0, 0, 0)\<rparr>"

definition example_moving_conditioned :: "example_process BrownianObjectMotionModel" where
  "example_moving_conditioned =
     \<lparr>state_m = [example_body_moving],
      quaternion_map_m = [((1 / 2, 0, 0), (0, 1 / 2, 0), (0, 0, 1 / 2), (0, 0, 0))],
      rotation_center_m = [(0, 0, 0)],
      linear_process_m = [example_process_0\<lparr>ep_delta_time := 1,
                            ep_state := ((0, 0, 0), (2, 0, 0))\<rparr>],
      angular_process_m = [example_process_0\<lparr>ep_delta_time := 1,
                             ep_state := ((0, 0, 0), (0, 0, 0))\<rparr>]\<rparr>"

definition example_moving_predicted :: body where
  "example_moving_predicted =
     \<lparr>position = (3, 0, 0), orientation = (0, 0, 0, 1),
      linear_velocity = (2, 0, 0), angular_velocity = (0, 0, 0)\<rparr>"





section \<open>Properties\<close>

subsection \<open>The error monad and the loops\<close>

lemma bindE_Inr [simp]: "bindE (Inr x) f = f x"
  by (simp add: bindE_def)

lemma bindE_Inl [simp]: "bindE (Inl e) f = Inl e"
  by (simp add: bindE_def)

lemma bindE_eq_Inr: "bindE r f = Inr y \<longleftrightarrow> (\<exists>x. r = Inr x \<and> f x = Inr y)"
  by (cases r) simp_all

lemma topRows_Inr: "topRows v n = Inr p \<longleftrightarrow> n \<le> length v \<and> p = take n v"
  by (auto simp add: topRows_def middleRows_def)

lemma mapE_length: "mapE f js = Inr ys \<Longrightarrow> length ys = length js"
  by (induction js arbitrary: ys) (auto split: sum.splits)

lemma mapE_nth: "mapE f js = Inr ys \<Longrightarrow> k < length js \<Longrightarrow> f (js ! k) = Inr (ys ! k)"
proof (induction js arbitrary: ys k)
  case Nil
  then show ?case by simp
next
  case (Cons j js)
  then show ?case
    by (cases k) (auto split: sum.splits)
qed




lemma upt2 [simp]: "[0..<2] = [0, 1]"
  by (simp add: upt_rec)

lemma foldE_append: "foldE f (xs @ ys) s = bindE (foldE f xs s) (foldE f ys)"
  by (induction xs arbitrary: s) (auto split: sum.splits)

lemma foldE_single: "foldE f [k] s = f k s"
  by (simp split: sum.splits)

lemma foldE_upt_Suc: "foldE f [0..<Suc k] s = bindE (foldE f [0..<k] s) (f k)"
  by (cases "foldE f [0..<k] s") (simp_all add: foldE_append split: sum.splits)

lemma foldE_upt_invariant:
  assumes "foldE f [0..<k] s0 = Inr s'"
    and "P 0 s0"
    and "\<And>i s t. i < k \<Longrightarrow> P i s \<Longrightarrow> f i s = Inr t \<Longrightarrow> P (Suc i) t"
  shows "P k s'"
  using assms
proof (induction k arbitrary: s')
  case 0
  then show ?case by simp
next
  case (Suc k)
  from Suc.prems(1) obtain s where s: "foldE f [0..<k] s0 = Inr s" and t: "f k s = Inr s'"
    unfolding foldE_upt_Suc by (auto simp add: bindE_eq_Inr)
  have "P k s"
    by (rule Suc.IH [OF s Suc.prems(2)]) (rule Suc.prems(3), simp_all)
  with t show ?case by (intro Suc.prems(3) [of k s s']) simp_all
qed



lemma middleRows3_Inr:
  "middleRows3 v k = Inr u \<longleftrightarrow> k + 3 \<le> length v \<and> u = (v ! k, v ! (k + 1), v ! (k + 2))"
  by (auto simp add: middleRows3_def middleRows_def)

lemma middleRows3_Inl:
  "middleRows3 v k = Inl e \<longleftrightarrow> \<not> k + 3 \<le> length v \<and> e = IndexOutOfRange"
  by (auto simp add: middleRows3_def middleRows_def)

lemma mapE_Inr_intro:
  assumes "length ys = length js" and "\<And>k. k < length js \<Longrightarrow> f (js ! k) = Inr (ys ! k)"
  shows "mapE f js = Inr ys"
  using assms
proof (induction js arbitrary: ys)
  case Nil
  then show ?case by simp
next
  case (Cons j js)
  then obtain y zs where ys: "ys = y # zs" by (cases ys) auto
  from Cons.prems(2) [of 0] have y: "f j = Inr y" by (simp add: ys)
  have "mapE f js = Inr zs"
  proof (rule Cons.IH)
    show "length zs = length js" using Cons.prems(1) by (simp add: ys)
    show "f (js ! k) = Inr (zs ! k)" if "k < length js" for k
      using Cons.prems(2) [of "Suc k"] that by (simp add: ys)
  qed
  with y show ?case by (simp add: ys)
qed

subsection \<open>Claims about the depth observation model\<close>

text \<open>
  The two paths of \<^verbatim>\<open>predict_observation\<close>: on a hit the camera model is applied to the
  entry found and neither the model nor the renderer changes; on a miss the entry comes
  from \<^verbatim>\<open>map\<close>, which sets the pose of the renderer and renders.
\<close>

lemma Depth_predict_hit:
  assumes "topRows state 6 = Inr pose" and "predictions_cache_m m pose = Some e"
  shows "Depth_predict_observation rops m r state noise dt =
           bindE (Camera_predict_observation real_ops (camera_obsrv_model_m m) e noise dt)
             (\<lambda>y. Inr (y, m, r))"
  using assms by (simp add: Depth_predict_observation_def)

lemma Depth_predict_miss:
  assumes "topRows state 6 = Inr pose" and "predictions_cache_m m pose = None"
  shows "Depth_predict_observation rops m r state noise dt =
           bindE (Depth_map rops m r state) (\<lambda>(e, m1, r1).
             bindE (Camera_predict_observation real_ops (camera_obsrv_model_m m1) e noise dt)
               (\<lambda>y. Inr (y, m1\<lparr>predictions_cache_m := (predictions_cache_m m1)(pose \<mapsto> e)\<rparr>, r1)))"
  using assms by (cases "Depth_map rops m r state") (auto simp add: Depth_predict_observation_def)

lemma Depth_map_frame:
  assumes "Depth_map rops m r state = Inr (e, m1, r1)"
  shows "m1 = m\<lparr>depth_rendering_m := fst (r_Render rops (r_state rops r (take (pose_state_dimension_m m) state)) (depth_rendering_m m))\<rparr>"
    and "r1 = snd (r_Render rops (r_state rops r (take (pose_state_dimension_m m) state)) (depth_rendering_m m))"
    and "convert m (fst (r_Render rops (r_state rops r (take (pose_state_dimension_m m) state)) (depth_rendering_m m))) state = Inr e"
  using assms
  by (auto simp add: Depth_map_def topRows_def middleRows_def Let_def bindE_eq_Inr convert_def split: if_splits)



lemma Depth_predict_miss_result:
  assumes "predictions_cache_m m (take 6 state) = None"
    and "Depth_predict_observation rops m r state noise dt = Inr (y, m1, r1)"
  shows "r1 = snd (r_Render rops (r_state rops r (take (pose_state_dimension_m m) state))
                     (depth_rendering_m m))"
    and "\<exists>e. convert m (fst (r_Render rops
                              (r_state rops r (take (pose_state_dimension_m m) state))
                              (depth_rendering_m m))) state = Inr e
             \<and> Camera_predict_observation real_ops (camera_obsrv_model_m m) e noise dt = Inr y
             \<and> predictions_cache_m m1 = (predictions_cache_m m)(take 6 state \<mapsto> e)"
    and "depth_rendering_m m1 = fst (r_Render rops
                              (r_state rops r (take (pose_state_dimension_m m) state))
                              (depth_rendering_m m))"
    and "pose_state_dimension_m m1 = pose_state_dimension_m m"
    and "camera_obsrv_model_m m1 = camera_obsrv_model_m m"
proof -
  from assms(2) obtain pose where p: "topRows state 6 = Inr pose"
    by (auto simp add: Depth_predict_observation_def bindE_eq_Inr)
  then have pose: "pose = take 6 state" by (simp add: topRows_Inr)
  from assms(1) have none: "predictions_cache_m m pose = None" by (simp add: pose)
  from assms(2) obtain e ma where dm: "Depth_map rops m r state = Inr (e, ma, r1)"
    and cam: "Camera_predict_observation real_ops (camera_obsrv_model_m ma) e noise dt = Inr y"
    and m1: "m1 = ma\<lparr>predictions_cache_m := (predictions_cache_m ma)(pose \<mapsto> e)\<rparr>"
    unfolding Depth_predict_miss [OF p none] by (auto simp add: bindE_eq_Inr)
  note fr = Depth_map_frame [OF dm]
  show "r1 = snd (r_Render rops (r_state rops r (take (pose_state_dimension_m m) state))
                     (depth_rendering_m m))"
    by (rule fr(2))
  show "\<exists>e. convert m (fst (r_Render rops
                              (r_state rops r (take (pose_state_dimension_m m) state))
                              (depth_rendering_m m))) state = Inr e
             \<and> Camera_predict_observation real_ops (camera_obsrv_model_m m) e noise dt = Inr y
             \<and> predictions_cache_m m1 = (predictions_cache_m m)(take 6 state \<mapsto> e)"
    using fr(3) cam by (auto simp add: m1 fr(1) pose)
  show "depth_rendering_m m1 = fst (r_Render rops
                              (r_state rops r (take (pose_state_dimension_m m) state))
                              (depth_rendering_m m))"
    by (simp add: m1 fr(1))
  show "pose_state_dimension_m m1 = pose_state_dimension_m m"
    by (simp add: m1 fr(1))
  show "camera_obsrv_model_m m1 = camera_obsrv_model_m m"
    by (simp add: m1 fr(1))
qed

text \<open>
  The example: a camera of two pixels, built with both sigmas 1; the scene has depth 1 at
  the first pixel and nothing at the second. The first call renders and fills the cache.
\<close>

lemma example_constructed: "DepthObservationModel 1 1 6 8 1 2 = Inr example_depth_model"
  by (simp add: DepthObservationModel_def example_depth_model_def PixelObservationModel_def
      numeral_2_eq_2)

lemmas example_eval = Depth_predict_observation_def Depth_map_def convert_def
  Camera_predict_observation_def Pixel_predict_observation_def topRows_def middleRows_def
  coeff_def example_rops_def example_depth_model_def example_scene_def real_ops_def
  clear_cache_def Let_def

lemma example_call1:
  "Depth_predict_observation example_rops example_depth_model example_scene
      [0,0,0,0,0,0,0,0] [1, 1/2] 0
   = Inr ([3, 9, 8, 64],
          example_depth_model\<lparr>depth_rendering_m := [Depth 1, Infinite],
             predictions_cache_m := [[0,0,0,0,0,0] \<mapsto> [1, 0, 7, 0]]\<rparr>,
          example_scene\<lparr>pose_set := [0,0,0,0,0,0], render_count := 1\<rparr>)"
  by (simp add: example_eval)

lemma example_call1_after:
  "Depth_predict_observation example_rops example_depth_model example_scene
      [0,0,0,0,0,0,0,0] [1, 1/2] 0
   = Inr ([3, 9, 8, 64], example_model_after, example_scene_after)"
  by (simp add: example_call1 example_model_after_def example_scene_after_def)



text \<open>
  Claim C7. The cache key is compared exactly: if two states differ in one of their first
  six components, by whatever amount, and neither pose is in the cache yet, then the two
  calls of \<^verbatim>\<open>predict_observation\<close> leave two entries under two different keys, each
  converted from a rendering of its own, and the renderer is invoked in each call.
\<close>

theorem C7_distinct_poses_distinct_entries:
  assumes "i < 6" and "s1 ! i \<noteq> s2 ! i"
    and "predictions_cache_m m (take 6 s1) = None"
    and "predictions_cache_m m (take 6 s2) = None"
    and "Depth_predict_observation rops m r s1 n1 dt1 = Inr (y1, m1, r1)"
    and "Depth_predict_observation rops m1 r1 s2 n2 dt2 = Inr (y2, m2, r2)"
  shows "take 6 s1 \<noteq> take 6 s2
       \<and> (\<exists>e1 e2. predictions_cache_m m2
                     = (predictions_cache_m m)(take 6 s1 \<mapsto> e1, take 6 s2 \<mapsto> e2)
              \<and> convert m (fst (r_Render rops
                     (r_state rops r (take (pose_state_dimension_m m) s1))
                     (depth_rendering_m m))) s1 = Inr e1
              \<and> convert m (fst (r_Render rops
                     (r_state rops r1 (take (pose_state_dimension_m m) s2))
                     (depth_rendering_m m1))) s2 = Inr e2)
       \<and> r1 = snd (r_Render rops (r_state rops r (take (pose_state_dimension_m m) s1))
                      (depth_rendering_m m))
       \<and> r2 = snd (r_Render rops (r_state rops r1 (take (pose_state_dimension_m m) s2))
                      (depth_rendering_m m1))"
proof -
  from assms(5) have l1: "6 \<le> length s1"
    by (auto simp add: Depth_predict_observation_def bindE_eq_Inr topRows_Inr)
  from assms(6) have l2: "6 \<le> length s2"
    by (auto simp add: Depth_predict_observation_def bindE_eq_Inr topRows_Inr)
  have ne: "take 6 s1 \<noteq> take 6 s2"
  proof
    assume "take 6 s1 = take 6 s2"
    then have "take 6 s1 ! i = take 6 s2 ! i" by simp
    with assms(1) l1 l2 have "s1 ! i = s2 ! i" by simp
    with assms(2) show False by simp
  qed
  note first = Depth_predict_miss_result [OF assms(3) assms(5)]
  from first(2) obtain e1 where e1:
    "convert m (fst (r_Render rops (r_state rops r (take (pose_state_dimension_m m) s1))
                       (depth_rendering_m m))) s1 = Inr e1"
    "predictions_cache_m m1 = (predictions_cache_m m)(take 6 s1 \<mapsto> e1)"
    by blast
  have none2: "predictions_cache_m m1 (take 6 s2) = None"
    using ne assms(4) by (simp add: e1(2))
  note second = Depth_predict_miss_result [OF none2 assms(6)]
  from second(2) obtain e2 where e2:
    "convert m1 (fst (r_Render rops (r_state rops r1 (take (pose_state_dimension_m m1) s2))
                       (depth_rendering_m m1))) s2 = Inr e2"
    "predictions_cache_m m2 = (predictions_cache_m m1)(take 6 s2 \<mapsto> e2)"
    by blast
  have conv2: "convert m (fst (r_Render rops (r_state rops r1 (take (pose_state_dimension_m m) s2))
                       (depth_rendering_m m1))) s2 = Inr e2"
    using e2(1) by (simp add: convert_def first(4))
  have cache: "predictions_cache_m m2
                 = (predictions_cache_m m)(take 6 s1 \<mapsto> e1, take 6 s2 \<mapsto> e2)"
    by (simp add: e2(2) e1(2))
  from ne cache e1(1) conv2 first(1) second(1) show ?thesis
    by (auto simp add: first(4))
qed

theorem C7_distinct_poses_distinct_entries_witness:
  "(2::nat) < 6 \<and> [0,0,0,0,0,0,0,0::real] ! 2 \<noteq> example_state_shifted ! 2
   \<and> predictions_cache_m example_depth_model (take 6 [0,0,0,0,0,0,0,0]) = None
   \<and> predictions_cache_m example_depth_model (take 6 example_state_shifted) = None
   \<and> Depth_predict_observation example_rops example_depth_model example_scene
        [0,0,0,0,0,0,0,0] [1, 1/2] 0
       = Inr ([3, 9, 8, 64], example_model_after, example_scene_after)
   \<and> Depth_predict_observation example_rops example_model_after example_scene_after
        example_state_shifted [0, 0] 0
       = Inr ([1025 / 1024, 1050625 / 1048576, 7, 49],
              example_model_after\<lparr>depth_rendering_m := [Depth (1025 / 1024), Infinite],
                predictions_cache_m := [[0,0,0,0,0,0] \<mapsto> [1, 0, 7, 0],
                                        [0,0,1/1024,0,0,0] \<mapsto> [1025 / 1024, 0, 7, 0]]\<rparr>,
              example_scene_after\<lparr>pose_set := [0,0,1/1024,0,0,0], render_count := 2\<rparr>)
   \<and> take 6 [0,0,0,0,0,0,0,0::real] \<noteq> take 6 example_state_shifted
   \<and> snd (r_Render example_rops
            (r_state example_rops example_scene_after
               (take (pose_state_dimension_m example_depth_model) example_state_shifted))
            (depth_rendering_m example_model_after))
       = example_scene_after\<lparr>pose_set := [0,0,1/1024,0,0,0], render_count := 2\<rparr>"
proof -
  have h1: "(2::nat) < 6" by simp
  have h2: "[0,0,0,0,0,0,0,0::real] ! 2 \<noteq> example_state_shifted ! 2"
    by (simp add: example_state_shifted_def)
  have h3: "predictions_cache_m example_depth_model (take 6 [0,0,0,0,0,0,0,0]) = None"
    by (simp add: example_depth_model_def)
  have h4: "predictions_cache_m example_depth_model (take 6 example_state_shifted) = None"
    by (simp add: example_depth_model_def)
  have h6: "Depth_predict_observation example_rops example_model_after example_scene_after
        example_state_shifted [0, 0] 0
       = Inr ([1025 / 1024, 1050625 / 1048576, 7, 49],
              example_model_after\<lparr>depth_rendering_m := [Depth (1025 / 1024), Infinite],
                predictions_cache_m := [[0,0,0,0,0,0] \<mapsto> [1, 0, 7, 0],
                                        [0,0,1/1024,0,0,0] \<mapsto> [1025 / 1024, 0, 7, 0]]\<rparr>,
              example_scene_after\<lparr>pose_set := [0,0,1/1024,0,0,0], render_count := 2\<rparr>)"
    by (simp add: example_eval example_model_after_def example_scene_after_def
        example_state_shifted_def)
  from C7_distinct_poses_distinct_entries [OF h1 h2 h3 h4 example_call1_after h6]
  have "take 6 [0,0,0,0,0,0,0,0::real] \<noteq> take 6 example_state_shifted"
    and "example_scene_after\<lparr>pose_set := [0,0,1/1024,0,0,0], render_count := 2\<rparr>
         = snd (r_Render example_rops
            (r_state example_rops example_scene_after
               (take (pose_state_dimension_m example_depth_model) example_state_shifted))
            (depth_rendering_m example_model_after))"
    by blast+
  with h1 h2 h3 h4 h6 show ?thesis
    by (simp only: example_call1_after simp_thms)
qed



subsection \<open>Claims about the pixel observation model\<close>

text \<open>
  Claim C8. For every latent state and every noise value, the second component of the
  observation returned by the pixel observation model's \<^verbatim>\<open>predict_observation\<close> is exactly
  the square of the first component: it is the product of the stored first component with
  itself, whatever the scalar arithmetic does.
\<close>

theorem C8_second_component_is_square:
  "snd (Pixel_predict_observation ops pm state noise delta_time)
     = s_times ops (fst (Pixel_predict_observation ops pm state noise delta_time))
                   (fst (Pixel_predict_observation ops pm state noise delta_time))"
  by (simp add: Pixel_predict_observation_def Let_def)


lemma example_3_4_constructed:
  "DepthObservationModel 3 4 6 8 1 2 = Inr example_depth_model_3_4"
  by (simp add: DepthObservationModel_def example_depth_model_3_4_def
      PixelObservationModel_def numeral_2_eq_2)

lemma sqrt_25: "sqrt 25 = 5"
proof -
  have "sqrt ((5::real)\<^sup>2) = \<bar>5\<bar>" by (rule real_sqrt_abs)
  then show ?thesis by simp
qed

text \<open>
  Claim C3, as stated: the first component is
  \<open>depth + exp occlusionFeature * baseSigma * noise\<close> with \<open>baseSigma\<close> the noise standard
  deviation configured at construction. With \<^verbatim>\<open>camera_sigma = 3\<close> and \<^verbatim>\<open>model_sigma = 4\<close>
  the configured variance is 25 and the standard deviation is 5; for the latent state
  \<open>(0, 0)\<close> and the noise 1 the code returns 25: not 5, and neither of the two sigmas.
\<close>

theorem C3_scale_is_not_the_standard_deviation:
  "DepthObservationModel 3 4 6 8 1 2 = Inr example_depth_model_3_4
   \<and> fst (Pixel_predict_observation real_ops
            (local_obsrv_model_m (camera_obsrv_model_m example_depth_model_3_4)) (0, 0) 1 0) = 25
   \<and> 0 + exp 0 * noise_standard_deviation 3 4 * 1 = 5
   \<and> fst (Pixel_predict_observation real_ops
            (local_obsrv_model_m (camera_obsrv_model_m example_depth_model_3_4)) (0, 0) 1 0)
       \<noteq> 0 + exp 0 * noise_standard_deviation 3 4 * 1
   \<and> fst (Pixel_predict_observation real_ops
            (local_obsrv_model_m (camera_obsrv_model_m example_depth_model_3_4)) (0, 0) 1 0)
       \<noteq> 0 + exp 0 * camera_sigma_m example_depth_model_3_4 * 1
   \<and> fst (Pixel_predict_observation real_ops
            (local_obsrv_model_m (camera_obsrv_model_m example_depth_model_3_4)) (0, 0) 1 0)
       \<noteq> 0 + exp 0 * model_sigma_m example_depth_model_3_4 * 1"
  by (simp add: example_3_4_constructed Pixel_predict_observation_def real_ops_def
      example_depth_model_3_4_def noise_standard_deviation_def sqrt_25)

lemma Depth_predict_camera_unchanged:
  assumes "Depth_predict_observation rops m r state noise dt = Inr (y, m1, r1)"
  shows "camera_obsrv_model_m m1 = camera_obsrv_model_m m"
proof -
  from assms obtain pose where p: "topRows state 6 = Inr pose"
    by (auto simp add: Depth_predict_observation_def bindE_eq_Inr)
  show ?thesis
  proof (cases "predictions_cache_m m pose")
    case None
    from assms obtain e ma where dm: "Depth_map rops m r state = Inr (e, ma, r1)"
      and m1: "m1 = ma\<lparr>predictions_cache_m := (predictions_cache_m ma)(pose \<mapsto> e)\<rparr>"
      unfolding Depth_predict_miss [OF p None] by (auto simp add: bindE_eq_Inr)
    from Depth_map_frame(1) [OF dm] m1 show ?thesis by simp
  next
    case (Some e)
    from assms show ?thesis
      unfolding Depth_predict_hit [OF p Some] by (auto simp add: bindE_eq_Inr)
  qed
qed

text \<open>
  Claim C3, amended. The constructor sets the covariance of the pixel model to
  \<open>camera_sigma\<^sup>2 + model_sigma\<^sup>2\<close> times the 1x1 identity; \<^verbatim>\<open>predict_observation\<close> of the
  pixel model returns \<open>depth + exp occlusionFeature * c * noise\<close> as first component, where
  the factor \<open>c\<close> is that covariance entry itself (the variance, not its square root); and
  neither \<^verbatim>\<open>predict_observation\<close> nor \<^verbatim>\<open>clear_cache\<close> of the depth model changes the
  camera model that holds it.
\<close>

theorem C3_pixel_prediction_scales_by_variance:
  "(DepthObservationModel camera_sigma model_sigma pose_dim state_dim res_rows res_cols = Inr m
      \<longrightarrow> covariance (local_obsrv_model_m (camera_obsrv_model_m m))
            = 1 * (camera_sigma\<^sup>2 + model_sigma\<^sup>2)
        \<and> fst (Pixel_predict_observation real_ops
                 (local_obsrv_model_m (camera_obsrv_model_m m)) (depth, occ) noise dt)
            = depth + exp occ * (camera_sigma\<^sup>2 + model_sigma\<^sup>2) * noise)
   \<and> (Depth_predict_observation rops m' r state ns dt' = Inr (y, m'', r'')
        \<longrightarrow> camera_obsrv_model_m m'' = camera_obsrv_model_m m')
   \<and> camera_obsrv_model_m (clear_cache m') = camera_obsrv_model_m m'"
proof -
  have "covariance (local_obsrv_model_m (camera_obsrv_model_m m))
            = 1 * (camera_sigma\<^sup>2 + model_sigma\<^sup>2)
        \<and> fst (Pixel_predict_observation real_ops
                 (local_obsrv_model_m (camera_obsrv_model_m m)) (depth, occ) noise dt)
            = depth + exp occ * (camera_sigma\<^sup>2 + model_sigma\<^sup>2) * noise"
    if "DepthObservationModel camera_sigma model_sigma pose_dim state_dim res_rows res_cols
          = Inr m"
    using that
    by (auto simp add: DepthObservationModel_def PixelObservationModel_def
        Pixel_predict_observation_def real_ops_def power2_eq_square Let_def split: if_splits)
  moreover have "camera_obsrv_model_m m'' = camera_obsrv_model_m m'"
    if "Depth_predict_observation rops m' r state ns dt' = Inr (y, m'', r'')"
    using that by (rule Depth_predict_camera_unchanged)
  moreover have "camera_obsrv_model_m (clear_cache m') = camera_obsrv_model_m m'"
    by (simp add: clear_cache_def)
  ultimately show ?thesis by blast
qed

theorem C3_pixel_prediction_scales_by_variance_witness:
  "DepthObservationModel 3 4 6 8 1 2 = Inr example_depth_model_3_4
   \<and> covariance (local_obsrv_model_m (camera_obsrv_model_m example_depth_model_3_4)) = 25
   \<and> fst (Pixel_predict_observation real_ops
            (local_obsrv_model_m (camera_obsrv_model_m example_depth_model_3_4)) (1, 0) 2 0) = 51
   \<and> Depth_predict_observation example_rops example_depth_model example_scene
        [0,0,0,0,0,0,0,0] [1, 1/2] 0
       = Inr ([3, 9, 8, 64], example_model_after, example_scene_after)
   \<and> camera_obsrv_model_m example_model_after = camera_obsrv_model_m example_depth_model"
  using C3_pixel_prediction_scales_by_variance [of 3 4 6 8 1 2 example_depth_model_3_4 1 0 2 0
      example_rops example_depth_model example_scene "[0,0,0,0,0,0,0,0]" "[1, 1/2]" 0
      "[3, 9, 8, 64]" example_model_after example_scene_after]
  by (simp add: example_3_4_constructed example_call1_after)
subsection \<open>Claims about the continuous occlusion process model\<close>

text \<open>
  The specification's scenario: transition probabilities 0.9 and 0.95, sigma 0.1, initial
  log-odds 0 and time step 1. With the sampler that returns the mean, the conditioned mean
  is 0.925, and the zero sample maps to the finite log-odds \<open>ln (37 / 3)\<close>.
\<close>

lemmas occlusion_eval = Occlusion_condition_def Occlusion_map_standard_normal_def
  Occlusion_predict_state_def OcclusionProcessModel_condition_def
  OcclusionProcessModel_sample_def TruncatedGaussian_parameters_def example_double_ops_def
  example_drawing_ops_def example_mean_sample_def example_state_sample_def
  example_occlusion_model_def example_occlusion_conditioned_def drawn_mean_def Let_def

lemma example_occlusion_condition:
  "Occlusion_condition example_double_ops (Finite 1) (Finite 0) example_occlusion_model
     = Returns example_occlusion_conditioned"
  by (simp add: occlusion_eval)

lemma example_occlusion_map:
  "Occlusion_map_standard_normal example_double_ops example_occlusion_conditioned (Finite 0)
     = Returns (Finite (ln (37 / 3)))"
  by (simp add: occlusion_eval)

text \<open>
  Claim C4, as stated: a NaN occlusion value is surfaced to the caller as an error result
  and the process goes on. In the example \<^verbatim>\<open>condition\<close> with NaN does not return: the
  process exits with status \<open>-1\<close> after one line of output. So does \<^verbatim>\<open>predict_state\<close>
  when \<^verbatim>\<open>map_standard_normal\<close> produces NaN (here from the negative time step, whose
  square root is NaN).
\<close>

theorem C4_nan_exits_the_process:
  "isnan example_double_ops NaN
   \<and> Occlusion_condition example_double_ops (Finite 1) NaN example_occlusion_model
       = Exits (- 1) [[Text ''error: received nan occlusion in process model'']]
   \<and> Occlusion_predict_state example_double_ops (Finite (- 1)) (Finite 0) (Finite 0)
        example_occlusion_model
       = Exits (- 1) [[Text ''error: produced nan occlusion in process model'']]"
  by (simp add: occlusion_eval)

text \<open>
  Claim C4, amended. When \<^verbatim>\<open>condition\<close> receives a NaN occlusion value, or the mean it
  draws is NaN, or the result of \<^verbatim>\<open>map_standard_normal\<close> is NaN, the operation writes an
  error message and ends the process with \<^verbatim>\<open>exit(-1)\<close>; nothing is returned to the caller.
  In every other case the operation returns: \<^verbatim>\<open>condition\<close> with the truncated Gaussian set
  to the mean drawn, the standard deviation \<open>sigma * sqrt delta_time\<close> and the interval from
  0 to 1, \<^verbatim>\<open>map_standard_normal\<close> with the log-odds computed; and what is returned is not
  NaN.
\<close>

theorem C4_nan_terminates_process:
  "(isnan ops occlusion \<longrightarrow>
      Occlusion_condition ops delta_time occlusion m
        = Exits (- 1) [[Text ''error: received nan occlusion in process model'']])
   \<and> (\<not> isnan ops occlusion \<and> isnan ops (drawn_mean ops delta_time occlusion m)
      \<longrightarrow> Occlusion_condition ops delta_time occlusion m
            = Exits (- 1)
                [[Text ''error: produced nan mean in process model''],
                 [Text ''delta_time '', Number delta_time],
                 [Text ''initial_occlusion_probability '', Number (sigmoid ops occlusion)]])
   \<and> (\<not> isnan ops occlusion \<and> \<not> isnan ops (drawn_mean ops delta_time occlusion m)
      \<longrightarrow> (\<exists>m1. Occlusion_condition ops delta_time occlusion m = Returns m1
                \<and> truncated_gaussian_m m1
                    = TruncatedGaussian_parameters (truncated_gaussian_m m)
                        (drawn_mean ops delta_time occlusion m)
                        (d_times ops (sigma_m m) (d_sqrt ops delta_time))
                        (d_zero ops) (d_one ops)
                \<and> sigma_m m1 = sigma_m m))
   \<and> (isnan ops (logit ops (truncated_map_standard_normal ops (truncated_gaussian_m m) sample))
      \<longrightarrow> Occlusion_map_standard_normal ops m sample
            = Exits (- 1) [[Text ''error: produced nan occlusion in process model'']])
   \<and> (\<not> isnan ops (logit ops (truncated_map_standard_normal ops (truncated_gaussian_m m) sample))
      \<longrightarrow> Occlusion_map_standard_normal ops m sample
            = Returns (logit ops (truncated_map_standard_normal ops (truncated_gaussian_m m)
                                    sample)))
   \<and> (\<forall>m1. Occlusion_condition ops delta_time occlusion m = Returns m1
          \<longrightarrow> \<not> isnan ops occlusion \<and> \<not> isnan ops (tg_mean (truncated_gaussian_m m1)))
   \<and> (\<forall>l. Occlusion_map_standard_normal ops m sample = Returns l \<longrightarrow> \<not> isnan ops l)
   \<and> ((\<exists>m1. Occlusion_condition ops delta_time occlusion m = Returns m1)
        \<or> (\<exists>out. Occlusion_condition ops delta_time occlusion m = Exits (- 1) out))
   \<and> ((\<exists>l. Occlusion_map_standard_normal ops m sample = Returns l)
        \<or> (\<exists>out. Occlusion_map_standard_normal ops m sample = Exits (- 1) out))"
  by (auto simp add: Occlusion_condition_def Occlusion_map_standard_normal_def Let_def
      OcclusionProcessModel_condition_def OcclusionProcessModel_sample_def
      TruncatedGaussian_parameters_def drawn_mean_def)

theorem C4_nan_terminates_process_witness:
  "isnan example_double_ops NaN
   \<and> Occlusion_condition example_double_ops (Finite 1) NaN example_occlusion_model
       = Exits (- 1) [[Text ''error: received nan occlusion in process model'']]
   \<and> \<not> isnan example_double_ops (Finite 0)
   \<and> drawn_mean example_double_ops (Finite 1) (Finite 0) example_occlusion_model
       = Finite (37 / 40)
   \<and> Occlusion_condition example_double_ops (Finite 1) (Finite 0) example_occlusion_model
       = Returns example_occlusion_conditioned
   \<and> \<not> isnan example_double_ops (tg_mean (truncated_gaussian_m example_occlusion_conditioned))
   \<and> Occlusion_map_standard_normal example_double_ops example_occlusion_conditioned (Finite 0)
       = Returns (Finite (ln (37 / 3)))
   \<and> \<not> isnan example_double_ops (Finite (ln (37 / 3)))"
proof -
  have nan: "isnan example_double_ops NaN" "\<not> isnan example_double_ops (Finite 0)"
    by (simp_all add: example_double_ops_def)
  have drawn: "drawn_mean example_double_ops (Finite 1) (Finite 0) example_occlusion_model
                 = Finite (37 / 40)"
    by (simp add: occlusion_eval)
  from C4_nan_terminates_process [of example_double_ops NaN "Finite 1" example_occlusion_model]
    nan
  have exits: "Occlusion_condition example_double_ops (Finite 1) NaN example_occlusion_model
       = Exits (- 1) [[Text ''error: received nan occlusion in process model'']]"
    by blast
  from C4_nan_terminates_process [of example_double_ops "Finite 0" "Finite 1"
      example_occlusion_model] example_occlusion_condition
  have "\<not> isnan example_double_ops (tg_mean (truncated_gaussian_m example_occlusion_conditioned))"
    by blast
  moreover
  from C4_nan_terminates_process [of example_double_ops _ _ example_occlusion_conditioned
      "Finite 0"] example_occlusion_map
  have "\<not> isnan example_double_ops (Finite (ln (37 / 3)))"
    by blast
  ultimately show ?thesis
    using nan drawn exits example_occlusion_condition example_occlusion_map by simp
qed

subsection \<open>Claims about the Brownian object motion model\<close>

text \<open>
  The loop of \<^verbatim>\<open>condition\<close>: after \<open>k\<close> rounds the first \<open>k\<close> bodies are in the internal
  representation and their quaternion maps and processes are conditioned; the rest is as
  before. The loop returns exactly when the vectors of the model and the control are long
  enough for the bodies of the state.
\<close>

lemma conditioned_upto_0:
  "conditioned_upto fl delta_time state control m 0 (m\<lparr>state_m := state\<rparr>)"
  by (simp add: conditioned_upto_def)

lemma conditioned_upto_step:
  assumes "i < length state"
    and "conditioned_upto fl delta_time state control m i s"
    and "Brownian_condition_body fl delta_time control i s = Inr t"
  shows "conditioned_upto fl delta_time state control m (Suc i) t"
proof -
  from assms(3) have bounds: "i < length (state_m s)" "i < length (quaternion_map_m s)"
    "i < length (rotation_center_m s)" "i < length (linear_process_m s)"
    "i < length (angular_process_m s)"
    by (auto simp add: Brownian_condition_body_def split: if_splits)
  from assms(3) bounds have c1: "i * 6 + 3 \<le> length control" and c2: "i * 6 + 3 + 3 \<le> length control"
    by (auto simp add: Brownian_condition_body_def Let_def bindE_eq_Inr middleRows3_Inr)
  note inv = assms(2) [unfolded conditioned_upto_def]
  have here: "state_m s ! i = state ! i" "quaternion_map_m s ! i = quaternion_map_m m ! i"
    "linear_process_m s ! i = linear_process_m m ! i"
    "angular_process_m s ! i = angular_process_m m ! i"
    "rotation_center_m s = rotation_center_m m"
    using inv by auto
  from assms(3) bounds c1 c2 have t: "t = s\<lparr>state_m := (state_m s)[i := internal_body (rotation_center_m m ! i) (state ! i)],
         quaternion_map_m := (quaternion_map_m s)[i := quaternion_matrix fl (orientation (state ! i))],
         linear_process_m := (linear_process_m s)
           [i := process_condition fl (linear_process_m m ! i) delta_time
                   (Vector3d_Zero,
                    linear_velocity (internal_body (rotation_center_m m ! i) (state ! i)))
                   (row3 control (i * 6))],
         angular_process_m := (angular_process_m s)
           [i := process_condition fl (angular_process_m m ! i) delta_time
                   (Vector3d_Zero, angular_velocity (state ! i)) (row3 control (i * 6 + 3))]\<rparr>"
    by (auto simp add: Brownian_condition_body_def Let_def middleRows3_def middleRows_def
        row3_def internal_body_def here)
  show ?thesis
    unfolding conditioned_upto_def t
    using inv bounds c2 by (auto simp add: nth_list_update less_Suc_eq)
qed

lemma Brownian_condition_Inr:
  assumes "Brownian_condition fl delta_time state control m = Inr m1"
  shows "conditioned_upto fl delta_time state control m (length state) m1"
  using assms [unfolded Brownian_condition_def] conditioned_upto_0
  by (rule foldE_upt_invariant) (rule conditioned_upto_step)


text \<open>The loop of \<^verbatim>\<open>map_standard_normal\<close>, body by body.\<close>

lemma Brownian_map_standard_normal_Inr:
  assumes "Brownian_map_standard_normal fl m sample = Inr new_state"
  shows "length new_state = length (state_m m)"
    and "i < length (state_m m) \<Longrightarrow>
           Brownian_map_standard_normal_body fl m sample i = Inr (new_state ! i)"
  using mapE_length [OF assms [unfolded Brownian_map_standard_normal_def]]
    mapE_nth [OF assms [unfolded Brownian_map_standard_normal_def], of i]
  by simp_all










text \<open>The fields of a body that \<^verbatim>\<open>map_standard_normal\<close> returns.\<close>

lemma Brownian_map_standard_normal_body_Inr:
  assumes "Brownian_map_standard_normal_body fl m sample i = Inr b"
  shows "orientation b
           = normalized (qadd (orientation (state_m m ! i))
               (mat43_times (quaternion_map_m m ! i)
                  (fst (process_map_standard_normal fl (angular_process_m m ! i)
                          (row3 sample (i * 6 + 3))))))"
    and "angular_velocity b
           = snd (process_map_standard_normal fl (angular_process_m m ! i)
                    (row3 sample (i * 6 + 3)))"
    and "linear_velocity b
           = vsub (snd (process_map_standard_normal fl (linear_process_m m ! i)
                          (row3 sample (i * 6))))
               (cross (angular_velocity b) (position (state_m m ! i)))"
    and "position b
           = vsub (vadd (position (state_m m ! i))
                     (fst (process_map_standard_normal fl (linear_process_m m ! i)
                             (row3 sample (i * 6)))))
               (mat33_times (toRotationMatrix (orientation b)) (rotation_center_m m ! i))"
proof -
  from assms obtain u w where u: "middleRows3 sample (i * 6) = Inr u"
    and w: "middleRows3 sample (i * 6 + 3) = Inr w"
    by (auto simp add: Brownian_map_standard_normal_body_def bindE_eq_Inr split: if_splits)
  then have uw: "u = row3 sample (i * 6)" "w = row3 sample (i * 6 + 3)"
    by (simp_all add: middleRows3_Inr row3_def)
  from assms have b: "b = (let linear_delta = process_map_standard_normal fl (linear_process_m m ! i) u;
                 angular_delta = process_map_standard_normal fl (angular_process_m m ! i) w;
                 old = state_m m ! i;
                 pos = vadd (position old) (fst linear_delta);
                 updated_quaternion = qadd (orientation old)
                                        (mat43_times (quaternion_map_m m ! i) (fst angular_delta));
                 n1 = \<lparr>position = pos, orientation = normalized updated_quaternion,
                       linear_velocity = snd linear_delta,
                       angular_velocity = snd angular_delta\<rparr>;
                 n2 = n1\<lparr>linear_velocity :=
                          vsub (linear_velocity n1) (cross (angular_velocity n1) (position old))\<rparr>;
                 n3 = n2\<lparr>position :=
                          vsub (position n2)
                            (mat33_times (rotation_matrix n2) (rotation_center_m m ! i))\<rparr>
             in n3)"
    by (auto simp add: Brownian_map_standard_normal_body_def u w Let_def split: if_splits)
  show "orientation b
           = normalized (qadd (orientation (state_m m ! i))
               (mat43_times (quaternion_map_m m ! i)
                  (fst (process_map_standard_normal fl (angular_process_m m ! i)
                          (row3 sample (i * 6 + 3))))))"
    by (simp add: b Let_def uw)
  show "angular_velocity b
           = snd (process_map_standard_normal fl (angular_process_m m ! i)
                    (row3 sample (i * 6 + 3)))"
    by (simp add: b Let_def uw)
  show "linear_velocity b
           = vsub (snd (process_map_standard_normal fl (linear_process_m m ! i)
                          (row3 sample (i * 6))))
               (cross (angular_velocity b) (position (state_m m ! i)))"
    by (simp add: b Let_def uw)
  show "position b
           = vsub (vadd (position (state_m m ! i))
                     (fst (process_map_standard_normal fl (linear_process_m m ! i)
                             (row3 sample (i * 6)))))
               (mat33_times (toRotationMatrix (orientation b)) (rotation_center_m m ! i))"
    by (simp add: b Let_def uw rotation_matrix_def)
qed

text \<open>
  The example: one body at \<open>(1, 0, 0)\<close> turning about the z axis, conditioned with time
  step 1 and mapped with the zero noise sample.
\<close>

lemmas motion_eval = Brownian_predict_state_def Brownian_condition_def
  Brownian_map_standard_normal_def Brownian_condition_body_def
  Brownian_map_standard_normal_body_def middleRows3_def middleRows_def
  example_fl_def example_process_condition_def example_process_map_def
  example_quaternion_matrix_def example_motion_model_def example_body_def
  example_process_0_def rotation_matrix_def toRotationMatrix_def Vector3d_Zero_def
  zero6_def Let_def

lemma upt1 [simp]: "[0..<1] = [0]"
  by (simp add: upt_rec)

lemma example_condition_eval:
  "Brownian_condition example_fl 1 [example_body] zero6 example_motion_model
     = Inr example_motion_conditioned"
  by (simp add: motion_eval example_motion_conditioned_def)

lemma sqrt_25_16: "sqrt (25 / 16) = 5 / 4"
proof -
  have "sqrt ((5 / 4)\<^sup>2) = \<bar>5 / 4 :: real\<bar>" by (rule real_sqrt_abs)
  then show ?thesis by (simp add: power2_eq_square)
qed

lemma example_map_eval:
  "Brownian_map_standard_normal example_fl example_motion_conditioned zero6
     = Inr [example_predicted]"
  by (simp add: motion_eval example_motion_conditioned_def example_predicted_def qnorm_def
      sqrt_25_16)










text \<open>The rotation center at zero: the position is not moved.\<close>

lemma vadd_zero [simp]: "vadd p Vector3d_Zero = p"
  by (cases p) (simp add: Vector3d_Zero_def)

lemma vsub_zero [simp]: "vsub p Vector3d_Zero = p"
  by (cases p) (simp add: Vector3d_Zero_def)

lemma mat33_times_zero [simp]: "mat33_times M Vector3d_Zero = Vector3d_Zero"
  by (cases M rule: prod_cases3; cases "fst M"; cases "fst (snd M)"; cases "snd (snd M)")
    (simp add: Vector3d_Zero_def)

lemma internal_body_zero:
  "internal_body Vector3d_Zero b
     = b\<lparr>linear_velocity := vadd (linear_velocity b) (cross (angular_velocity b) (position b))\<rparr>"
  by (simp add: internal_body_def)

lemma Brownian_predict_state_Inr:
  assumes "Brownian_predict_state fl delta_time state noise input m = Inr (new_state, m1)"
  shows "Brownian_condition fl delta_time state input m = Inr m1"
    and "Brownian_map_standard_normal fl m1 noise = Inr new_state"
  using assms by (auto simp add: Brownian_predict_state_def bindE_eq_Inr)

lemma example_predict_eval:
  "Brownian_predict_state example_fl 1 [example_body] zero6 zero6 example_motion_model
     = Inr ([example_predicted], example_motion_conditioned)"
  by (simp add: Brownian_predict_state_def example_condition_eval example_map_eval)

lemma example_pivot_free_eval:
  "pivot_free_predict_state example_fl 1 [example_body] zero6 zero6 example_motion_model
     = Inr [example_pivot_free]"
  by (simp add: pivot_free_predict_state_def pivot_free_body_def motion_eval
      example_pivot_free_def qnorm_def sqrt_25_16)

lemma example_moving_condition_eval:
  "Brownian_condition example_fl 1 [example_body_moving] zero6 example_motion_model
     = Inr example_moving_conditioned"
  by (simp add: motion_eval example_moving_conditioned_def example_body_moving_def)

lemma example_moving_map_eval:
  "Brownian_map_standard_normal example_fl example_moving_conditioned zero6
     = Inr [example_moving_predicted]"
  by (simp add: motion_eval example_moving_conditioned_def example_moving_predicted_def
      example_body_moving_def qnorm_def)

lemma example_moving_predict_eval:
  "Brownian_predict_state example_fl 1 [example_body_moving] zero6 zero6 example_motion_model
     = Inr ([example_moving_predicted], example_moving_conditioned)"
  by (simp add: Brownian_predict_state_def example_moving_condition_eval
      example_moving_map_eval)

text \<open>
  Claim C2, as stated: with the rotation center at zero, zero noise and zero control, the
  position and velocities returned are those of the pivot-free dynamics. A body at
  \<open>(1, 0, 0)\<close> with zero linear velocity, turning about the z axis with angular velocity
  \<open>3/2\<close>: \<^verbatim>\<open>condition\<close> hands the linear process the velocity \<open>v + \<omega> \<times> p = (0, 3/2, 0)\<close>,
  and after one time step of the example integrator the returned position is
  \<open>(1, 3/2, 0)\<close>, where the pivot-free dynamics leave the body at \<open>(1, 0, 0)\<close>.
\<close>

theorem C2_residual_offset:
  "rotation_center_m example_motion_model = [Vector3d_Zero]
   \<and> Brownian_predict_state example_fl 1 [example_body] zero6 zero6 example_motion_model
       = Inr ([example_predicted], example_motion_conditioned)
   \<and> pivot_free_predict_state example_fl 1 [example_body] zero6 zero6 example_motion_model
       = Inr [example_pivot_free]
   \<and> position example_predicted = (1, 3 / 2, 0)
   \<and> position example_pivot_free = (1, 0, 0)
   \<and> [example_predicted] \<noteq> [example_pivot_free]"
  by (simp add: example_predict_eval example_pivot_free_eval)
    (simp add: example_predicted_def example_pivot_free_def example_motion_model_def
      Vector3d_Zero_def)

text \<open>
  Claim C2, amended. With the rotation center at zero the position is not shifted, in
  neither direction, but the linear velocity still is: \<^verbatim>\<open>condition\<close> conditions the linear
  process on \<open>v + \<omega> \<times> p\<close>, and \<^verbatim>\<open>map_standard_normal\<close> returns the velocity of the process
  minus \<open>\<omega>' \<times> p\<close>, where \<open>p\<close> is the position before the step and \<open>\<omega>'\<close> the new angular
  velocity. So the returned state is that of the pivot-free dynamics whenever both cross
  products vanish for every body, for every noise sample and control; in particular for a
  body that does not turn.
\<close>

theorem C2_zero_pivot_round_trip:
  assumes "\<forall>i<length state. rotation_center_m m ! i = Vector3d_Zero"
    and "Brownian_predict_state fl delta_time state noise input m = Inr (new_state, m1)"
  shows "length new_state = length state
       \<and> (\<forall>i<length state.
             position (state_m m1 ! i) = position (state ! i)
           \<and> linear_velocity (state_m m1 ! i)
               = vadd (linear_velocity (state ! i))
                   (cross (angular_velocity (state ! i)) (position (state ! i)))
           \<and> position (new_state ! i)
               = vadd (position (state ! i))
                   (fst (process_map_standard_normal fl (linear_process_m m1 ! i)
                           (row3 noise (i * 6))))
           \<and> linear_velocity (new_state ! i)
               = vsub (snd (process_map_standard_normal fl (linear_process_m m1 ! i)
                              (row3 noise (i * 6))))
                   (cross (angular_velocity (new_state ! i)) (position (state ! i))))
       \<and> ((\<forall>i<length state.
               cross (angular_velocity (state ! i)) (position (state ! i)) = Vector3d_Zero
             \<and> cross (angular_velocity (new_state ! i)) (position (state ! i)) = Vector3d_Zero)
            \<longrightarrow> pivot_free_predict_state fl delta_time state noise input m = Inr new_state)"
proof -
  note cond = Brownian_predict_state_Inr(1) [OF assms(2)]
  note mapd = Brownian_map_standard_normal_Inr [OF Brownian_predict_state_Inr(2) [OF assms(2)]]
  note inv = Brownian_condition_Inr [OF cond, unfolded conditioned_upto_def]
  from inv have len1: "length (state_m m1) = length state" by simp
  have len: "length new_state = length state" by (simp add: mapd(1) len1)
  have internal: "state_m m1 ! i
      = (state ! i)\<lparr>linear_velocity := vadd (linear_velocity (state ! i))
                       (cross (angular_velocity (state ! i)) (position (state ! i)))\<rparr>"
    and center: "rotation_center_m m1 ! i = Vector3d_Zero"
    and qmap: "quaternion_map_m m1 ! i = quaternion_matrix fl (orientation (state ! i))"
    and lin: "linear_process_m m1 ! i
      = process_condition fl (linear_process_m m ! i) delta_time
          (Vector3d_Zero, vadd (linear_velocity (state ! i))
                            (cross (angular_velocity (state ! i)) (position (state ! i))))
          (row3 input (i * 6))"
    and ang: "angular_process_m m1 ! i
      = process_condition fl (angular_process_m m ! i) delta_time
          (Vector3d_Zero, angular_velocity (state ! i)) (row3 input (i * 6 + 3))"
    if "i < length state" for i
    using that inv assms(1) by (simp_all add: internal_body_zero)
  have body: "Brownian_map_standard_normal_body fl m1 noise i = Inr (new_state ! i)"
    if "i < length state" for i
    using that by (simp add: mapd(2) len1)
  note new = Brownian_map_standard_normal_body_Inr [OF body]
  have first: "position (state_m m1 ! i) = position (state ! i)
           \<and> linear_velocity (state_m m1 ! i)
               = vadd (linear_velocity (state ! i))
                   (cross (angular_velocity (state ! i)) (position (state ! i)))
           \<and> position (new_state ! i)
               = vadd (position (state ! i))
                   (fst (process_map_standard_normal fl (linear_process_m m1 ! i)
                           (row3 noise (i * 6))))
           \<and> linear_velocity (new_state ! i)
               = vsub (snd (process_map_standard_normal fl (linear_process_m m1 ! i)
                              (row3 noise (i * 6))))
                   (cross (angular_velocity (new_state ! i)) (position (state ! i)))"
    if "i < length state" for i
    using new(3,4) [OF that] by (simp add: internal [OF that] center [OF that])
  have second: "pivot_free_predict_state fl delta_time state noise input m = Inr new_state"
    if zero: "\<forall>i<length state.
               cross (angular_velocity (state ! i)) (position (state ! i)) = Vector3d_Zero
             \<and> cross (angular_velocity (new_state ! i)) (position (state ! i)) = Vector3d_Zero"
    unfolding pivot_free_predict_state_def
  proof (rule mapE_Inr_intro)
    show "length new_state = length [0..<length state]" by (simp add: len)
    fix k assume "k < length [0..<length state]"
    then have k: "k < length state" by simp
    from inv k have bounds: "k < length (linear_process_m m)" "k < length (angular_process_m m)"
      "k * 6 + 3 \<le> length input" "k * 6 + 3 + 3 \<le> length input"
      by simp_all
    from body [OF k] have nb: "k * 6 + 3 \<le> length noise" "k * 6 + 3 + 3 \<le> length noise"
      by (auto simp add: Brownian_map_standard_normal_body_def bindE_eq_Inr middleRows3_Inr
          split: if_splits)
    from zero k have z1: "cross (angular_velocity (state ! k)) (position (state ! k)) = Vector3d_Zero"
      and z2: "cross (angular_velocity (new_state ! k)) (position (state ! k)) = Vector3d_Zero"
      by simp_all
    have lv: "linear_velocity (new_state ! k)
        = snd (process_map_standard_normal fl
                   (process_condition fl (linear_process_m m ! k) delta_time
                      (Vector3d_Zero, linear_velocity (state ! k)) (row3 input (k * 6)))
                   (row3 noise (k * 6)))"
      using new(3) [OF k] z2 by (simp add: internal [OF k] lin [OF k] z1)
    have "new_state ! k
        = \<lparr>position = position (new_state ! k), orientation = orientation (new_state ! k),
           linear_velocity = linear_velocity (new_state ! k),
           angular_velocity = angular_velocity (new_state ! k)\<rparr>"
      by simp
    also have "\<dots> = \<lparr>position = vadd (position (state ! k))
           (fst (process_map_standard_normal fl
                   (process_condition fl (linear_process_m m ! k) delta_time
                      (Vector3d_Zero, linear_velocity (state ! k)) (row3 input (k * 6)))
                   (row3 noise (k * 6)))),
         orientation = normalized (qadd (orientation (state ! k))
           (mat43_times (quaternion_matrix fl (orientation (state ! k)))
              (fst (process_map_standard_normal fl
                      (process_condition fl (angular_process_m m ! k) delta_time
                         (Vector3d_Zero, angular_velocity (state ! k)) (row3 input (k * 6 + 3)))
                      (row3 noise (k * 6 + 3)))))),
         linear_velocity = snd (process_map_standard_normal fl
                   (process_condition fl (linear_process_m m ! k) delta_time
                      (Vector3d_Zero, linear_velocity (state ! k)) (row3 input (k * 6)))
                   (row3 noise (k * 6))),
         angular_velocity = snd (process_map_standard_normal fl
                      (process_condition fl (angular_process_m m ! k) delta_time
                         (Vector3d_Zero, angular_velocity (state ! k)) (row3 input (k * 6 + 3)))
                      (row3 noise (k * 6 + 3)))\<rparr>"
      using new(1,2,4) [OF k]
      by (simp add: lv internal [OF k] center [OF k] qmap [OF k] lin [OF k] ang [OF k] z1)
    finally show "pivot_free_body fl delta_time input noise m state ([0..<length state] ! k)
                    = Inr (new_state ! k)"
      using k bounds nb
      by (simp add: pivot_free_body_def middleRows3_def middleRows_def row3_def Let_def)
  qed
  from len first second show ?thesis by blast
qed

theorem C2_zero_pivot_round_trip_witness:
  "rotation_center_m example_motion_model ! 0 = Vector3d_Zero
   \<and> Brownian_predict_state example_fl 1 [example_body_moving] zero6 zero6 example_motion_model
       = Inr ([example_moving_predicted], example_moving_conditioned)
   \<and> cross (angular_velocity example_body_moving) (position example_body_moving) = Vector3d_Zero
   \<and> cross (angular_velocity example_moving_predicted) (position example_body_moving)
       = Vector3d_Zero
   \<and> pivot_free_predict_state example_fl 1 [example_body_moving] zero6 zero6
        example_motion_model = Inr [example_moving_predicted]
   \<and> position example_moving_predicted = (3, 0, 0)"
proof -
  have center: "\<forall>i<length [example_body_moving].
                  rotation_center_m example_motion_model ! i = Vector3d_Zero"
    by (simp add: example_motion_model_def Vector3d_Zero_def)
  have zero: "cross (angular_velocity example_body_moving) (position example_body_moving)
                = Vector3d_Zero"
    "cross (angular_velocity example_moving_predicted) (position example_body_moving)
                = Vector3d_Zero"
    by (simp_all add: example_body_moving_def example_moving_predicted_def Vector3d_Zero_def)
  from C2_zero_pivot_round_trip [OF center example_moving_predict_eval] zero
  have "pivot_free_predict_state example_fl 1 [example_body_moving] zero6 zero6
          example_motion_model = Inr [example_moving_predicted]"
    by simp
  with center zero show ?thesis
    by (simp add: example_moving_predict_eval) (simp add: example_moving_predicted_def)
qed

text \<open>
  Claim C9, as stated: after \<^verbatim>\<open>predict_state\<close> the state object of the caller holds the
  new pose and velocities. In the example the caller's object still holds the body at
  \<open>(1, 0, 0)\<close> after the call; the new pose \<open>(1, 3/2, 0)\<close> is in the returned state.
\<close>

theorem C9_caller_state_keeps_old_pose:
  "call_predict_state example_fl 1 zero6 zero6
     \<lparr>caller_state = [example_body], motion_model = example_motion_model\<rparr>
     = Inr ([example_predicted],
            \<lparr>caller_state = [example_body], motion_model = example_motion_conditioned\<rparr>)
   \<and> position example_body = (1, 0, 0)
   \<and> position example_predicted = (1, 3 / 2, 0)
   \<and> [example_body] \<noteq> [example_predicted]"
  by (simp add: call_predict_state_def example_predict_eval)
    (simp add: example_body_def example_predicted_def)

text \<open>
  Claim C9, amended. \<^verbatim>\<open>predict_state\<close> leaves the state object of the caller unchanged:
  the new pose and velocities are the state it returns by value, and what is transformed
  in place is the model's own copy \<^verbatim>\<open>state_\<close>, which afterwards holds the internal
  representation of the argument.
\<close>

theorem C9_argument_not_mutated:
  assumes "call_predict_state fl delta_time noise input mem = Inr (returned, mem1)"
  shows "caller_state mem1 = caller_state mem
       \<and> Brownian_predict_state fl delta_time (caller_state mem) noise input (motion_model mem)
           = Inr (returned, motion_model mem1)
       \<and> length (state_m (motion_model mem1)) = length (caller_state mem)
       \<and> (\<forall>i<length (caller_state mem).
             state_m (motion_model mem1) ! i
               = internal_body (rotation_center_m (motion_model mem) ! i) (caller_state mem ! i))"
proof -
  from assms obtain m1 where
    pred: "Brownian_predict_state fl delta_time (caller_state mem) noise input (motion_model mem)
             = Inr (returned, m1)"
    and mem1: "mem1 = mem\<lparr>motion_model := m1\<rparr>"
    by (auto simp add: call_predict_state_def bindE_eq_Inr)
  note inv = Brownian_condition_Inr [OF Brownian_predict_state_Inr(1) [OF pred],
      unfolded conditioned_upto_def]
  from pred inv show ?thesis by (simp add: mem1)
qed

theorem C9_argument_not_mutated_witness:
  "call_predict_state example_fl 1 zero6 zero6
     \<lparr>caller_state = [example_body], motion_model = example_motion_model\<rparr>
     = Inr ([example_predicted],
            \<lparr>caller_state = [example_body], motion_model = example_motion_conditioned\<rparr>)
   \<and> caller_state \<lparr>caller_state = [example_body], motion_model = example_motion_conditioned\<rparr>
       = [example_body]
   \<and> state_m example_motion_conditioned ! 0 = internal_body (0, 0, 0) example_body"
proof -
  have call: "call_predict_state example_fl 1 zero6 zero6
     \<lparr>caller_state = [example_body], motion_model = example_motion_model\<rparr>
     = Inr ([example_predicted],
            \<lparr>caller_state = [example_body], motion_model = example_motion_conditioned\<rparr>)"
    by (simp add: call_predict_state_def example_predict_eval)
  from C9_argument_not_mutated [OF call] show ?thesis
    by (simp add: call) (simp add: example_motion_model_def)
qed

subsection \<open>The claim about \<^verbatim>\<open>condition\<close> of both process models\<close>












end
